theory Spec2Isabelle
  imports Complex_Main "HOL-Library.Log_Nat" "HOL-Library.Word"
begin

section \<open>Errors and results\<close>

text \<open>
  Every \<^verbatim>\<open>throw\<close> of the TypeScript sources, and every exception raised by the
  JavaScript runtime or by a library call, is a value \<open>Inl e\<close> of the result type
  \<open>error + 'a\<close>.
\<close>

datatype error =
    RangeError
  | SyntaxError
  | Error string
  | LibraryError string

definition bind_result :: "error + 'a \<Rightarrow> ('a \<Rightarrow> error + 'b) \<Rightarrow> error + 'b" where
  "bind_result r f = (case r of Inl e \<Rightarrow> Inl e | Inr x \<Rightarrow> f x)"

section \<open>JavaScript numbers\<close>

text \<open>
  A JavaScript \<^verbatim>\<open>number\<close> is an IEEE 754 binary64 value. A finite one is kept as the
  rational it denotes; negative zero is identified with zero (no modelled function divides
  by a variable, and \<^verbatim>\<open>BigInt(-0)\<close> is \<^verbatim>\<open>0n\<close>). Every arithmetic operation computes the
  exact rational result and rounds it to the nearest double, ties to even, with gradual
  underflow below \<open>2^-1022\<close> and overflow to infinity from \<open>2^1024 - 2^970\<close> on.
\<close>

datatype number = Finite rat | PosInf | NegInf | NaN

definition pow2 :: "int \<Rightarrow> rat" where
  "pow2 q = (if 0 \<le> q then of_int (2 ^ nat q) else 1 / of_int (2 ^ nat (- q)))"

definition floor_log2 :: "rat \<Rightarrow> int" where
  "floor_log2 x = (if 1 \<le> x then bitlen \<lfloor>x\<rfloor> - 1 else - bitlen (\<lceil>1 / x\<rceil> - 1))"

definition round_half_even :: "rat \<Rightarrow> int" where
  "round_half_even x =
     (let f = \<lfloor>x\<rfloor>; d = x - of_int f
      in if d < 1 / 2 then f else if 1 / 2 < d then f + 1 else if even f then f else f + 1)"

definition round64_pos :: "rat \<Rightarrow> number" where
  "round64_pos x =
     (let e = floor_log2 x; q = max (e - 52) (- 1074);
          m = round_half_even (x / pow2 q)
      in if 1024 \<le> e \<or> (e = 1023 \<and> m = 2 ^ 53) then PosInf
         else Finite (of_int m * pow2 q))"

fun negate :: "number \<Rightarrow> number" where
  "negate (Finite r) = Finite (- r)"
| "negate PosInf = NegInf"
| "negate NegInf = PosInf"
| "negate NaN = NaN"

definition round64 :: "rat \<Rightarrow> number" where
  "round64 x =
     (if x = 0 then Finite 0
      else if 0 < x then round64_pos x
      else negate (round64_pos (- x)))"

text \<open>The operator \<^verbatim>\<open>*\<close> on numbers.\<close>

fun js_mul :: "number \<Rightarrow> number \<Rightarrow> number" where
  "js_mul NaN _ = NaN"
| "js_mul _ NaN = NaN"
| "js_mul (Finite a) (Finite b) = round64 (a * b)"
| "js_mul (Finite a) PosInf = (if a = 0 then NaN else if 0 < a then PosInf else NegInf)"
| "js_mul (Finite a) NegInf = (if a = 0 then NaN else if 0 < a then NegInf else PosInf)"
| "js_mul PosInf (Finite b) = (if b = 0 then NaN else if 0 < b then PosInf else NegInf)"
| "js_mul NegInf (Finite b) = (if b = 0 then NaN else if 0 < b then NegInf else PosInf)"
| "js_mul PosInf PosInf = PosInf"
| "js_mul PosInf NegInf = NegInf"
| "js_mul NegInf PosInf = NegInf"
| "js_mul NegInf NegInf = PosInf"

text \<open>
  The operator \<^verbatim>\<open>/\<close> on numbers. The sources divide by the positive constants
  \<^verbatim>\<open>COGS_PER_AGIX\<close>, \<^verbatim>\<open>1e18\<close> and \<^verbatim>\<open>1e6\<close> only; a zero divisor is read as \<open>+0\<close>.
\<close>

fun js_div :: "number \<Rightarrow> number \<Rightarrow> number" where
  "js_div NaN _ = NaN"
| "js_div _ NaN = NaN"
| "js_div (Finite a) (Finite b) =
     (if b = 0 then (if a = 0 then NaN else if 0 < a then PosInf else NegInf)
      else round64 (a / b))"
| "js_div (Finite a) PosInf = Finite 0"
| "js_div (Finite a) NegInf = Finite 0"
| "js_div PosInf (Finite b) = (if 0 \<le> b then PosInf else NegInf)"
| "js_div NegInf (Finite b) = (if 0 \<le> b then NegInf else PosInf)"
| "js_div PosInf PosInf = NaN"
| "js_div PosInf NegInf = NaN"
| "js_div NegInf PosInf = NaN"
| "js_div NegInf NegInf = NaN"

text \<open>\<^verbatim>\<open>Math.floor\<close> and \<^verbatim>\<open>Math.ceil\<close>.\<close>

fun Math_floor :: "number \<Rightarrow> number" where
  "Math_floor (Finite r) = Finite (of_int \<lfloor>r\<rfloor>)"
| "Math_floor n = n"

fun Math_ceil :: "number \<Rightarrow> number" where
  "Math_ceil (Finite r) = Finite (of_int \<lceil>r\<rceil>)"
| "Math_ceil n = n"

text \<open>
  \<^verbatim>\<open>BigInt(n)\<close> of a number raises a RangeError unless the number is an integer;
  \<^verbatim>\<open>Number(b)\<close> of a bigint rounds it to the nearest double.
\<close>

fun BigInt :: "number \<Rightarrow> error + int" where
  "BigInt (Finite r) = (if of_int \<lfloor>r\<rfloor> = r then Inr \<lfloor>r\<rfloor> else Inl RangeError)"
| "BigInt _ = Inl RangeError"

definition Number :: "int \<Rightarrow> number" where
  "Number b = round64 (of_int b)"

text \<open>The comparisons \<^verbatim>\<open>>=\<close> and \<^verbatim>\<open><\<close>, and \<^verbatim>\<open>isNaN\<close>: every comparison with NaN is false.\<close>

fun js_ge :: "number \<Rightarrow> number \<Rightarrow> bool" where
  "js_ge NaN _ = False"
| "js_ge _ NaN = False"
| "js_ge (Finite a) (Finite b) = (b \<le> a)"
| "js_ge PosInf _ = True"
| "js_ge _ NegInf = True"
| "js_ge (Finite a) PosInf = False"
| "js_ge NegInf (Finite b) = False"
| "js_ge NegInf PosInf = False"

fun js_lt :: "number \<Rightarrow> number \<Rightarrow> bool" where
  "js_lt NaN _ = False"
| "js_lt _ NaN = False"
| "js_lt (Finite a) (Finite b) = (a < b)"
| "js_lt PosInf _ = False"
| "js_lt _ NegInf = False"
| "js_lt (Finite a) PosInf = True"
| "js_lt NegInf (Finite b) = True"
| "js_lt NegInf PosInf = True"

fun isNaN :: "number \<Rightarrow> bool" where
  "isNaN NaN = True"
| "isNaN _ = False"

section \<open>Unit conversion (utils/unitConverter.ts, constants/networks.ts)\<close>

definition COGS_PER_AGIX :: number where
  "COGS_PER_AGIX = Finite 100000000"

definition MAX_SAFE_INTEGER :: number where
  "MAX_SAFE_INTEGER = Finite 9007199254740991"

text \<open>
  The argument types \<^verbatim>\<open>number | string\<close> and \<^verbatim>\<open>bigint | number | string\<close>. The runtime's
  \<^verbatim>\<open>parseFloat\<close> and the string case of \<^verbatim>\<open>BigInt(...)\<close> are parameters of the functions
  that call them.
\<close>

datatype amount_arg = Num number | Str string

datatype units_arg = Big int | UNum number | UStr string

definition amount_number :: "(string \<Rightarrow> number) \<Rightarrow> amount_arg \<Rightarrow> number" where
  "amount_number parseFloat a = (case a of Str s \<Rightarrow> parseFloat s | Num n \<Rightarrow> n)"

definition units_bigint :: "(string \<Rightarrow> error + int) \<Rightarrow> units_arg \<Rightarrow> error + int" where
  "units_bigint BigInt_string u =
     (case u of Big b \<Rightarrow> Inr b | UNum n \<Rightarrow> BigInt n | UStr s \<Rightarrow> BigInt_string s)"

definition agixToCogs :: "(string \<Rightarrow> number) \<Rightarrow> amount_arg \<Rightarrow> error + int" where
  "agixToCogs parseFloat agix =
     (let agixNum = amount_number parseFloat agix
      in BigInt (Math_floor (js_mul agixNum COGS_PER_AGIX)))"

definition cogsToAgix :: "(string \<Rightarrow> error + int) \<Rightarrow> units_arg \<Rightarrow> error + number" where
  "cogsToAgix BigInt_string cogs =
     bind_result (units_bigint BigInt_string cogs)
       (\<lambda>cogsNum. Inr (js_div (Number cogsNum) COGS_PER_AGIX))"

definition ethToWei :: "(string \<Rightarrow> number) \<Rightarrow> amount_arg \<Rightarrow> error + int" where
  "ethToWei parseFloat eth =
     (let ethNum = amount_number parseFloat eth
      in BigInt (Math_floor (js_mul ethNum (Finite (10 ^ 18)))))"

definition weiToEth :: "(string \<Rightarrow> error + int) \<Rightarrow> units_arg \<Rightarrow> error + number" where
  "weiToEth BigInt_string wei =
     bind_result (units_bigint BigInt_string wei)
       (\<lambda>weiNum. Inr (js_div (Number weiNum) (Finite (10 ^ 18))))"

definition adaToLovelace :: "(string \<Rightarrow> number) \<Rightarrow> amount_arg \<Rightarrow> error + int" where
  "adaToLovelace parseFloat ada =
     (let adaNum = amount_number parseFloat ada
      in BigInt (Math_floor (js_mul adaNum (Finite (10 ^ 6)))))"

definition lovelaceToAda :: "(string \<Rightarrow> error + int) \<Rightarrow> units_arg \<Rightarrow> error + number" where
  "lovelaceToAda BigInt_string lovelace =
     bind_result (units_bigint BigInt_string lovelace)
       (\<lambda>lovelaceNum. Inr (js_div (Number lovelaceNum) (Finite (10 ^ 6))))"

definition validateAmount :: "(string \<Rightarrow> number) \<Rightarrow> amount_arg \<Rightarrow> bool" where
  "validateAmount parseFloat amount =
     (let num = amount_number parseFloat amount
      in \<not> isNaN num \<and> js_ge num (Finite 0) \<and> js_lt num MAX_SAFE_INTEGER)"

section \<open>Channel arithmetic (payment utilities)\<close>

text \<open>
  \<^verbatim>\<open>calculateMinimumDeposit(pricePerCall, estimatedCalls, safetyMultiplier = 1.2)\<close>: an
  omitted multiplier is \<open>None\<close> and stands for the literal \<^verbatim>\<open>1.2\<close>.
\<close>

definition calculateMinimumDeposit :: "int \<Rightarrow> number \<Rightarrow> number option \<Rightarrow> error + int" where
  "calculateMinimumDeposit pricePerCall estimatedCalls safetyMultiplier =
     bind_result (BigInt estimatedCalls)
       (\<lambda>calls.
          let baseDeposit = pricePerCall * calls;
              multiplier = (case safetyMultiplier of None \<Rightarrow> round64 (12 / 10) | Some m \<Rightarrow> m)
          in BigInt (Math_ceil (js_mul (Number baseDeposit) multiplier)))"

definition isChannelExpired :: "number \<Rightarrow> number \<Rightarrow> bool" where
  "isChannelExpired expiration currentBlock = js_ge currentBlock expiration"

section \<open>Strings and bytes\<close>

text \<open>
  A \<^verbatim>\<open>string\<close> is a list of 8-bit characters (the sources build ASCII text only), a
  \<^verbatim>\<open>Buffer\<close> a list of bytes.
\<close>

type_synonym byte = "8 word"

definition char_code :: "char \<Rightarrow> nat" where
  "char_code c = of_char c"

definition is_digit :: "char \<Rightarrow> bool" where
  "is_digit c = (48 \<le> char_code c \<and> char_code c \<le> 57)"

definition is_lower :: "char \<Rightarrow> bool" where
  "is_lower c = (97 \<le> char_code c \<and> char_code c \<le> 122)"

definition is_upper :: "char \<Rightarrow> bool" where
  "is_upper c = (65 \<le> char_code c \<and> char_code c \<le> 90)"

text \<open>\<^verbatim>\<open>String.prototype.toLowerCase\<close>, on the letters A to Z.\<close>

definition toLowerCase :: "string \<Rightarrow> string" where
  "toLowerCase s = map (\<lambda>c. if is_upper c then char_of (char_code c + 32) else c) s"

text \<open>\<^verbatim>\<open>bigint.toString()\<close>: decimal digits, with a minus sign below zero.\<close>

fun nat_digits :: "nat \<Rightarrow> string" where
  "nat_digits n = (if n < 10 then [char_of (48 + n)] else nat_digits (n div 10) @ [char_of (48 + n mod 10)])"

definition bigint_toString :: "int \<Rightarrow> string" where
  "bigint_toString i = (if i < 0 then CHR ''-'' # nat_digits (nat (- i)) else nat_digits (nat i))"

subsection \<open>Hexadecimal\<close>

definition hex_digit_value :: "char \<Rightarrow> nat option" where
  "hex_digit_value c =
     (let n = char_code c
      in if 48 \<le> n \<and> n \<le> 57 then Some (n - 48)
         else if 97 \<le> n \<and> n \<le> 102 then Some (n - 87)
         else if 65 \<le> n \<and> n \<le> 70 then Some (n - 55)
         else None)"

definition is_hex_digit :: "char \<Rightarrow> bool" where
  "is_hex_digit c = (hex_digit_value c \<noteq> None)"

definition hex_char :: "nat \<Rightarrow> char" where
  "hex_char n = (if n < 10 then char_of (48 + n) else char_of (87 + n))"

definition hex_byte :: "byte \<Rightarrow> string" where
  "hex_byte b = [hex_char (unat b div 16), hex_char (unat b mod 16)]"

text \<open>
  The text of a signature as ethers returns it: \<^verbatim>\<open>0x\<close> and two lower-case hexadecimal
  digits for every byte.
\<close>

definition hexlify :: "byte list \<Rightarrow> string" where
  "hexlify bs = ''0x'' @ concat (map hex_byte bs)"

text \<open>
  \<^verbatim>\<open>Buffer.from(s, 'hex')\<close> decodes two digits at a time and stops at the first pair
  that is not hexadecimal; a last single character is dropped.
\<close>

fun Buffer_from_hex :: "string \<Rightarrow> byte list" where
  "Buffer_from_hex (c1 # c2 # rest) =
     (case (hex_digit_value c1, hex_digit_value c2) of
        (Some h, Some l) \<Rightarrow> of_nat (16 * h + l) # Buffer_from_hex rest
      | _ \<Rightarrow> [])"
| "Buffer_from_hex _ = []"

text \<open>\<^verbatim>\<open>Buffer.from(s)\<close>: the bytes of the text itself.\<close>

definition Buffer_from_utf8 :: "string \<Rightarrow> byte list" where
  "Buffer_from_utf8 s = map (\<lambda>c. of_nat (char_code c)) s"

subsection \<open>Base64\<close>

definition base64_char :: "nat \<Rightarrow> char" where
  "base64_char n =
     (if n < 26 then char_of (65 + n)
      else if n < 52 then char_of (71 + n)
      else if n < 62 then char_of (n - 4)
      else if n = 62 then char_of (43 :: nat)
      else char_of (47 :: nat))"

text \<open>
  \<^verbatim>\<open>buffer.toString('base64')\<close>: the standard alphabet (A to Z, a to z, 0 to 9, then
  \<^verbatim>\<open>+\<close> with code 43 and \<^verbatim>\<open>/\<close> with code 47), padded with \<^verbatim>\<open>=\<close>.
\<close>

fun toString_base64 :: "byte list \<Rightarrow> string" where
  "toString_base64 [] = []"
| "toString_base64 [a] =
     [base64_char (unat a div 4), base64_char (unat a mod 4 * 16), CHR ''='', CHR ''='']"
| "toString_base64 [a, b] =
     [base64_char (unat a div 4), base64_char (unat a mod 4 * 16 + unat b div 16),
      base64_char (unat b mod 16 * 4), CHR ''='']"
| "toString_base64 (a # b # c # rest) =
     [base64_char (unat a div 4), base64_char (unat a mod 4 * 16 + unat b div 16),
      base64_char (unat b mod 16 * 4 + unat c div 64), base64_char (unat c mod 64)]
     @ toString_base64 rest"

text \<open>
  The reader's side of the encoding (the daemon decodes the header value): standard base64
  decoding, \<open>None\<close> on text that is not base64.
\<close>

definition base64_value :: "char \<Rightarrow> nat option" where
  "base64_value c =
     (let n = char_code c
      in if 65 \<le> n \<and> n \<le> 90 then Some (n - 65)
         else if 97 \<le> n \<and> n \<le> 122 then Some (n - 71)
         else if 48 \<le> n \<and> n \<le> 57 then Some (n + 4)
         else if n = 43 then Some 62
         else if n = 47 then Some 63
         else None)"

fun base64_decode :: "string \<Rightarrow> byte list option" where
  "base64_decode [] = Some []"
| "base64_decode (c1 # c2 # c3 # c4 # rest) =
     (case (base64_value c1, base64_value c2) of
        (Some x1, Some x2) \<Rightarrow>
          (if c3 = CHR ''='' then
             (if c4 = CHR ''='' \<and> rest = [] then Some [of_nat (x1 * 4 + x2 div 16)] else None)
           else
             (case base64_value c3 of
                None \<Rightarrow> None
              | Some x3 \<Rightarrow>
                  (if c4 = CHR ''='' then
                     (if rest = []
                      then Some [of_nat (x1 * 4 + x2 div 16), of_nat (x2 mod 16 * 16 + x3 div 4)]
                      else None)
                   else
                     (case base64_value c4 of
                        None \<Rightarrow> None
                      | Some x4 \<Rightarrow>
                          (case base64_decode rest of
                             None \<Rightarrow> None
                           | Some bs \<Rightarrow>
                               Some (of_nat (x1 * 4 + x2 div 16)
                                     # of_nat (x2 mod 16 * 16 + x3 div 4)
                                     # of_nat (x3 mod 4 * 64 + x4) # bs))))))
      | _ \<Rightarrow> None)"
| "base64_decode _ = None"

section \<open>The ethers library and the chain\<close>

text \<open>
  The hash, signature and address functions of the ethers library, and the escrow contract
  behind the provider, are not part of the repository. The library is a record of the
  functions the sources call; a call that throws returns \<open>Inl\<close>. An awaited promise is the
  value it resolves to, or the error it rejects with.
\<close>

datatype sol_value =
    Sol_string string
  | Sol_address string
  | Sol_uint256 number
  | Sol_uint256_big int

record Wallet =
  wallet_address :: string
  privateKey :: string

record Ethers =
  solidityPackedKeccak256 :: "sol_value list \<Rightarrow> error + string"
  getBytes :: "string \<Rightarrow> error + byte list"
  signMessage :: "Wallet \<Rightarrow> byte list \<Rightarrow> error + string"
  Signature_from :: "string \<Rightarrow> error + (int \<times> string \<times> string)"
  verifyMessage :: "byte list \<Rightarrow> string \<Rightarrow> error + string"
  ethers_id :: "string \<Rightarrow> string"
  isAddress :: "string \<Rightarrow> bool"

text \<open>\<^verbatim>\<open>try { body } catch { handler }\<close>.\<close>

definition try_catch :: "error + 'a \<Rightarrow> (error \<Rightarrow> error + 'a) \<Rightarrow> error + 'a" where
  "try_catch body handler = (case body of Inl e \<Rightarrow> handler e | Inr x \<Rightarrow> Inr x)"

section \<open>Payment signatures and metadata (payment utilities, gRPC client)\<close>

record PaymentSignature =
  ps_signature :: string
  ps_v :: int
  ps_r :: string
  ps_s :: string

definition generatePaymentSignature ::
  "Ethers \<Rightarrow> Wallet \<Rightarrow> string \<Rightarrow> number \<Rightarrow> number \<Rightarrow> int \<Rightarrow> error + PaymentSignature" where
  "generatePaymentSignature lib signer mpeAddress channelId nonce amount =
     bind_result
       (solidityPackedKeccak256 lib
          [Sol_string ''__MPE_claim_message'', Sol_address mpeAddress, Sol_uint256 channelId,
           Sol_uint256 nonce, Sol_uint256_big amount])
       (\<lambda>messageHash.
          bind_result (getBytes lib messageHash)
            (\<lambda>bytes.
               bind_result (signMessage lib signer bytes)
                 (\<lambda>signature.
                    bind_result (Signature_from lib signature)
                      (\<lambda>(v, r, s).
                         Inr \<lparr>ps_signature = signature, ps_v = v, ps_r = r, ps_s = s\<rparr>))))"

definition verifyPaymentSignature ::
  "Ethers \<Rightarrow> string \<Rightarrow> number \<Rightarrow> number \<Rightarrow> int \<Rightarrow> string \<Rightarrow> string \<Rightarrow> error + bool" where
  "verifyPaymentSignature lib mpeAddress channelId nonce amount signature expectedSigner =
     try_catch
       (bind_result
          (solidityPackedKeccak256 lib
             [Sol_string ''__MPE_claim_message'', Sol_address mpeAddress, Sol_uint256 channelId,
              Sol_uint256 nonce, Sol_uint256_big amount])
          (\<lambda>messageHash.
             bind_result (getBytes lib messageHash)
               (\<lambda>bytes.
                  bind_result (verifyMessage lib bytes signature)
                    (\<lambda>recoveredAddress.
                       Inr (toLowerCase recoveredAddress = toLowerCase expectedSigner)))))
       (\<lambda>e. Inr False)"

definition generateFreeCallToken ::
  "Ethers \<Rightarrow> Wallet \<Rightarrow> string \<Rightarrow> string \<Rightarrow> string \<Rightarrow> number \<Rightarrow> error + string" where
  "generateFreeCallToken lib signer userAddress organizationId serviceId currentBlock =
     bind_result
       (solidityPackedKeccak256 lib
          [Sol_string ''__free_call_prefix'', Sol_address userAddress, Sol_string organizationId,
           Sol_string serviceId, Sol_uint256 currentBlock])
       (\<lambda>message.
          bind_result (getBytes lib message)
            (\<lambda>bytes.
               bind_result (signMessage lib signer bytes)
                 (\<lambda>signature. Inr (toString_base64 (Buffer_from_utf8 signature)))))"

text \<open>
  A \<^verbatim>\<open>Record<string, string>\<close> is a map from keys to values. \<^verbatim>\<open>number.toString()\<close> is a
  parameter of the functions that print a number; \<^verbatim>\<open>signature.slice(2)\<close> drops the first
  two characters.
\<close>

definition createPaymentMetadata ::
  "(number \<Rightarrow> string) \<Rightarrow> number \<Rightarrow> number \<Rightarrow> int \<Rightarrow> PaymentSignature \<Rightarrow> (string \<rightharpoonup> string)" where
  "createPaymentMetadata toString channelId nonce amount signature =
     map_of
       [(''snet-payment-type'', ''escrow''),
        (''snet-payment-channel-id'', toString channelId),
        (''snet-payment-channel-nonce'', toString nonce),
        (''snet-payment-channel-amount'', bigint_toString amount),
        (''snet-payment-channel-signature-bin'',
           toString_base64 (Buffer_from_hex (drop 2 (ps_signature signature))))]"

definition createFreeCallMetadata ::
  "(number \<Rightarrow> string) \<Rightarrow> string \<Rightarrow> string \<Rightarrow> string \<Rightarrow> string \<Rightarrow> number \<Rightarrow> (string \<rightharpoonup> string)" where
  "createFreeCallMetadata toString userAddress organizationId serviceId authToken currentBlock =
     map_of
       [(''snet-payment-type'', ''free-call''),
        (''snet-free-call-user-id'', userAddress),
        (''snet-current-block-number'', toString currentBlock),
        (''snet-free-call-auth-token-bin'', authToken),
        (''snet-payment-channel-signature-bin'', '''')]"

text \<open>The static methods of the same names in the gRPC client.\<close>

definition GrpcClient_createPaymentMetadata ::
  "(number \<Rightarrow> string) \<Rightarrow> number \<Rightarrow> number \<Rightarrow> int \<Rightarrow> string \<Rightarrow> (string \<rightharpoonup> string)" where
  "GrpcClient_createPaymentMetadata toString channelId nonce amount signature =
     map_of
       [(''snet-payment-type'', ''escrow''),
        (''snet-payment-channel-id'', toString channelId),
        (''snet-payment-channel-nonce'', toString nonce),
        (''snet-payment-channel-amount'', bigint_toString amount),
        (''snet-payment-channel-signature-bin'',
           toString_base64 (Buffer_from_hex (drop 2 signature)))]"

definition GrpcClient_createFreeCallMetadata ::
  "(number \<Rightarrow> string) \<Rightarrow> string \<Rightarrow> string \<Rightarrow> string \<Rightarrow> string \<Rightarrow> number \<Rightarrow> (string \<rightharpoonup> string)" where
  "GrpcClient_createFreeCallMetadata toString userId organizationId serviceId token blockNumber =
     map_of
       [(''snet-payment-type'', ''free-call''),
        (''snet-free-call-user-id'', userId),
        (''snet-current-block-number'', toString blockNumber),
        (''snet-free-call-auth-token-bin'', token),
        (''snet-payment-channel-signature-bin'', '''')]"

section \<open>The Ethereum client (transport/ethereumClient.ts)\<close>

datatype tx_status = pending | success | failed

record TransactionResult =
  tx_hash :: string
  tx_blockNumber :: "number option"
  tx_status :: tx_status
  tx_gasUsed :: "int option"
  tx_effectiveGasPrice :: "int option"

record ChannelInfo =
  ch_channelId :: number
  ch_nonce :: number
  ch_sender :: string
  ch_signer :: string
  ch_recipient :: string
  ch_groupId :: string
  ch_value :: int
  ch_expiration :: number

text \<open>
  What the provider hands back: a log carries its topics, a receipt its logs, and a
  transaction response its hash and the outcome of \<^verbatim>\<open>wait()\<close>. The contract's
  \<^verbatim>\<open>channels\<close> getter returns, in the order of the ABI, nonce, sender, signer, recipient,
  groupId, value and expiration.
\<close>

record Log =
  topics :: "string list"

record TransactionReceipt =
  rc_logs :: "Log list"
  rc_blockNumber :: number
  rc_status :: "number option"
  rc_gasUsed :: int
  rc_gasPrice :: int

record TransactionResponse =
  tr_hash :: string
  tr_wait :: "error + TransactionReceipt"

type_synonym channel_tuple = "int \<times> string \<times> string \<times> string \<times> string \<times> int \<times> int"

record MpeContract =
  mpe_openChannel :: "string \<Rightarrow> string \<Rightarrow> string \<Rightarrow> int \<Rightarrow> number \<Rightarrow> error + TransactionResponse"
  mpe_channels :: "number \<Rightarrow> error + channel_tuple"

record EthereumClient =
  wallet :: "Wallet option"
  contracts_mpe :: "MpeContract option"

record OpenChannelResult =
  oc_channelId :: number
  oc_tx :: TransactionResult

text \<open>
  \<^verbatim>\<open>parseInt(s, 16)\<close>: leading white space and a sign are skipped, then a prefix \<^verbatim>\<open>0x\<close> or
  \<^verbatim>\<open>0X\<close>; the longest run of hexadecimal digits that follows is the value, rounded to a
  double, and NaN when there is no digit. An argument that is \<^verbatim>\<open>undefined\<close> is read as the
  text \<^verbatim>\<open>undefined\<close>. White space among the characters below 256 is the space, the
  codes 9 to 13 and the no-break space, code 160.
\<close>

definition is_whitespace :: "char \<Rightarrow> bool" where
  "is_whitespace c =
     (char_code c = 32 \<or> (9 \<le> char_code c \<and> char_code c \<le> 13) \<or> char_code c = 160)"

fun hex_number :: "nat \<Rightarrow> string \<Rightarrow> nat" where
  "hex_number acc [] = acc"
| "hex_number acc (c # cs) =
     hex_number (16 * acc + (case hex_digit_value c of Some d \<Rightarrow> d | None \<Rightarrow> 0)) cs"

definition parseInt16 :: "string option \<Rightarrow> number" where
  "parseInt16 input =
     (let inputString = (case input of None \<Rightarrow> ''undefined'' | Some s \<Rightarrow> s);
          s = dropWhile is_whitespace inputString;
          negative = (take 1 s = ''-'');
          s1 = (if take 1 s = ''-'' \<or> take 1 s = ''+'' then drop 1 s else s);
          s2 = (if take 2 s1 = ''0x'' \<or> take 2 s1 = ''0X'' then drop 2 s1 else s1);
          z = takeWhile is_hex_digit s2
      in if z = [] then NaN
         else if negative then negate (round64 (of_nat (hex_number 0 z)))
         else round64 (of_nat (hex_number 0 z)))"

definition nth_opt :: "'a list \<Rightarrow> nat \<Rightarrow> 'a option" where
  "nth_opt xs i = (if i < length xs then Some (xs ! i) else None)"

definition ChannelOpen_signature :: string where
  "ChannelOpen_signature =
     ''ChannelOpen(uint256,uint256,address,address,address,bytes32,uint256,uint256)''"

definition is_ChannelOpen :: "Ethers \<Rightarrow> Log \<Rightarrow> bool" where
  "is_ChannelOpen lib lg = (nth_opt (topics lg) 0 = Some (ethers_id lib ChannelOpen_signature))"

definition openChannel ::
  "Ethers \<Rightarrow> EthereumClient \<Rightarrow> string \<Rightarrow> string \<Rightarrow> int \<Rightarrow> number \<Rightarrow> error + OpenChannelResult" where
  "openChannel lib client recipient groupId amount expiration =
     (case (contracts_mpe client, wallet client) of
        (Some mpe, Some w) \<Rightarrow>
          (let signer = wallet_address w
           in bind_result (mpe_openChannel mpe signer recipient groupId amount expiration)
                (\<lambda>tx.
                   bind_result (tr_wait tx)
                     (\<lambda>receipt.
                        let event = find (is_ChannelOpen lib) (rc_logs receipt);
                            channelId =
                              (case event of
                                 Some ev \<Rightarrow> parseInt16 (nth_opt (topics ev) 1)
                               | None \<Rightarrow> Finite 0)
                        in Inr \<lparr>oc_channelId = channelId,
                                oc_tx =
                                  \<lparr>tx_hash = tr_hash tx,
                                   tx_blockNumber = Some (rc_blockNumber receipt),
                                   tx_status =
                                     (if rc_status receipt = Some (Finite 1) then success
                                      else failed),
                                   tx_gasUsed = Some (rc_gasUsed receipt),
                                   tx_effectiveGasPrice = Some (rc_gasPrice receipt)\<rparr>\<rparr>)))
      | _ \<Rightarrow> Inl (Error ''MPE contract or wallet not initialized''))"

definition getChannel :: "EthereumClient \<Rightarrow> number \<Rightarrow> error + ChannelInfo" where
  "getChannel client channelId =
     (case contracts_mpe client of
        None \<Rightarrow> Inl (Error ''MPE contract not initialized'')
      | Some mpe \<Rightarrow>
          bind_result (mpe_channels mpe channelId)
            (\<lambda>(c0, c1, c2, c3, c4, c5, c6).
               Inr \<lparr>ch_channelId = channelId, ch_nonce = Number c0, ch_sender = c1,
                    ch_signer = c2, ch_recipient = c3, ch_groupId = c4, ch_value = c5,
                    ch_expiration = Number c6\<rparr>))"

text \<open>
  \<^verbatim>\<open>parseChannelData\<close> of the payment utilities decodes the same tuple and leaves the
  channel id at 0 for its caller to set. Its argument is typed \<^verbatim>\<open>unknown[]\<close>; the values
  are those of the contract's getter, where \<^verbatim>\<open>BigInt(channelData[5])\<close> of a bigint is the
  bigint itself.
\<close>

definition parseChannelData :: "channel_tuple \<Rightarrow> ChannelInfo" where
  "parseChannelData channelData =
     (case channelData of
        (c0, c1, c2, c3, c4, c5, c6) \<Rightarrow>
          \<lparr>ch_channelId = Finite 0, ch_nonce = Number c0, ch_sender = c1, ch_signer = c2,
           ch_recipient = c3, ch_groupId = c4, ch_value = c5, ch_expiration = Number c6\<rparr>)"

definition EthereumClient_isValidAddress :: "Ethers \<Rightarrow> string \<Rightarrow> bool" where
  "EthereumClient_isValidAddress lib address = isAddress lib address"

section \<open>The Cardano client (transport/cardanoClient.ts)\<close>

text \<open>
  The regular expression \<^verbatim>\<open>/^addr(_test)?1[a-z0-9]+$/\<close>: the text \<^verbatim>\<open>addr\<close>, then
  \<^verbatim>\<open>_test\<close> or nothing, then \<^verbatim>\<open>1\<close> and one or more lower-case letters or digits up to
  the end of the string.
\<close>

definition starts_with :: "string \<Rightarrow> string \<Rightarrow> bool" where
  "starts_with p s = (take (length p) s = p)"

definition matches_1_payload :: "string \<Rightarrow> bool" where
  "matches_1_payload s =
     (case s of
        [] \<Rightarrow> False
      | c # payload \<Rightarrow>
          c = CHR ''1'' \<and> payload \<noteq> [] \<and> list_all (\<lambda>x. is_lower x \<or> is_digit x) payload)"

definition CardanoClient_isValidAddress :: "string \<Rightarrow> bool" where
  "CardanoClient_isValidAddress address =
     (starts_with ''addr'' address \<and>
      ((starts_with ''_test'' (drop 4 address) \<and> matches_1_payload (drop 9 address))
       \<or> matches_1_payload (drop 4 address)))"

section \<open>Notions of the specification\<close>

text \<open>Truncation toward zero, as the specification words the rounding of excess precision.\<close>

definition trunc_toward_zero :: "rat \<Rightarrow> int" where
  "trunc_toward_zero r = (if 0 \<le> r then \<lfloor>r\<rfloor> else \<lceil>r\<rceil>)"

text \<open>
  The topic of an indexed \<^verbatim>\<open>uint256\<close> event argument as the provider prints it: \<^verbatim>\<open>0x\<close> and
  the 64 hexadecimal digits of the 32-byte big-endian value.
\<close>

primrec hex_fixed :: "nat \<Rightarrow> nat \<Rightarrow> string" where
  "hex_fixed 0 n = []"
| "hex_fixed (Suc k) n = hex_fixed k (n div 16) @ [hex_char (n mod 16)]"

definition uint256_topic :: "nat \<Rightarrow> string" where
  "uint256_topic n = ''0x'' @ hex_fixed 64 n"

section \<open>Example libraries and clients\<close>

text \<open>
  A library whose signer returns the signature bytes \<open>bs\<close> as text, and whose recovery
  accepts the one signature \<^verbatim>\<open>0x01\<close>; used to run the functions on concrete inputs.
\<close>

definition signing_lib :: "byte list \<Rightarrow> Ethers" where
  "signing_lib bs =
     \<lparr>solidityPackedKeccak256 = (\<lambda>vs. Inr ''0x00''),
      getBytes = (\<lambda>h. Inr [0]),
      signMessage = (\<lambda>w m. Inr (hexlify bs)),
      Signature_from = (\<lambda>s. Inr (27, ''0x00'', ''0x00'')),
      verifyMessage =
        (\<lambda>m s. if s = ''0x01'' then Inr ''0xAbCd'' else Inl (LibraryError ''invalid signature'')),
      ethers_id = (\<lambda>t. ''0xid''),
      isAddress = (\<lambda>a. False)\<rparr>"

text \<open>
  A ledger whose \<^verbatim>\<open>channels\<close> getter reads a table of assigned channels and, as the getter
  of a Solidity mapping does, answers the all-zero tuple for an id that was never assigned;
  its \<^verbatim>\<open>openChannel\<close> is mined with the given logs. A client with a wallet on that ledger.
\<close>

definition zero_address :: string where
  "zero_address = ''0x0000000000000000000000000000000000000000''"

definition zero_bytes32 :: string where
  "zero_bytes32 = ''0x0000000000000000000000000000000000000000000000000000000000000000''"

definition example_receipt :: "Log list \<Rightarrow> TransactionReceipt" where
  "example_receipt logs =
     \<lparr>rc_logs = logs, rc_blockNumber = Finite 100, rc_status = Some (Finite 1),
      rc_gasUsed = 150000, rc_gasPrice = 1\<rparr>"

definition example_mpe :: "Log list \<Rightarrow> (number \<rightharpoonup> channel_tuple) \<Rightarrow> MpeContract" where
  "example_mpe logs table =
     \<lparr>mpe_openChannel =
        (\<lambda>signer recipient groupId amount expiration.
           Inr \<lparr>tr_hash = ''0xtx'', tr_wait = Inr (example_receipt logs)\<rparr>),
      mpe_channels =
        (\<lambda>channelId.
           case table channelId of
             Some t \<Rightarrow> Inr t
           | None \<Rightarrow> Inr (0, zero_address, zero_address, zero_address, zero_bytes32, 0, 0))\<rparr>"

definition example_client :: "Log list \<Rightarrow> (number \<rightharpoonup> channel_tuple) \<Rightarrow> EthereumClient" where
  "example_client logs table =
     \<lparr>wallet = Some \<lparr>wallet_address = ''0xsigner'', privateKey = ''0xkey''\<rparr>,
      contracts_mpe = Some (example_mpe logs table)\<rparr>"

text \<open>
  The strings the claim on the address checks speaks of: 42 characters, \<^verbatim>\<open>0x\<close> and 40
  hexadecimal digits.
\<close>

definition is_hex_address :: "string \<Rightarrow> bool" where
  "is_hex_address s = (length s = 42 \<and> take 2 s = ''0x'' \<and> list_all is_hex_digit (drop 2 s))"

section \<open>The address rule of the library\<close>

text \<open>
  \<^verbatim>\<open>ethers.isAddress\<close> (version 6 of the library, whose interface the sources call) answers
  whether \<^verbatim>\<open>getAddress\<close> returns. A string that matches \<^verbatim>\<open>/^(0x)?[0-9a-fA-F]{40}$/\<close> is
  given its \<^verbatim>\<open>0x\<close> if that is missing; when it matches
  \<^verbatim>\<open>/([A-F].*[a-f])|([a-f].*[A-F])/\<close>, that is, it has letters of both cases among a to f, it
  must equal its checksum spelling, and otherwise it is accepted as it is. A string that
  matches \<^verbatim>\<open>/^XE[0-9]{2}[0-9A-Za-z]{30,31}$/\<close> is accepted when its two check digits are
  the IBAN checksum. Every other string is refused. The checksum spelling is computed from
  the lower-cased string with Keccak-256; that function and the IBAN checksum are
  parameters.
\<close>

definition is_hex40 :: "string \<Rightarrow> bool" where
  "is_hex40 s = (length s = 40 \<and> list_all is_hex_digit s)"

definition matches_hex_address :: "string \<Rightarrow> bool" where
  "matches_hex_address a = (is_hex40 a \<or> (take 2 a = ''0x'' \<and> is_hex40 (drop 2 a)))"

definition is_upper_hex :: "char \<Rightarrow> bool" where
  "is_upper_hex c = (65 \<le> char_code c \<and> char_code c \<le> 70)"

definition is_lower_hex :: "char \<Rightarrow> bool" where
  "is_lower_hex c = (97 \<le> char_code c \<and> char_code c \<le> 102)"

definition mixed_case :: "string \<Rightarrow> bool" where
  "mixed_case a = (list_ex is_upper_hex a \<and> list_ex is_lower_hex a)"

definition matches_icap :: "string \<Rightarrow> bool" where
  "matches_icap a =
     (take 2 a = ''XE'' \<and> (length a = 34 \<or> length a = 35) \<and>
      list_all is_digit (take 2 (drop 2 a)) \<and>
      list_all (\<lambda>c. is_digit c \<or> is_upper c \<or> is_lower c) (drop 4 a))"

definition ethers_isAddress :: "(string \<Rightarrow> string) \<Rightarrow> (string \<Rightarrow> string) \<Rightarrow> string \<Rightarrow> bool" where
  "ethers_isAddress getChecksumAddress ibanChecksum address =
     (if matches_hex_address address then
        (let a = (if take 2 address = ''0x'' then address else ''0x'' @ address)
         in if mixed_case a then getChecksumAddress (toLowerCase a) = a else True)
      else if matches_icap address then take 2 (drop 2 address) = ibanChecksum address
      else False)"


section \<open>An example library that signs and recovers\<close>

text \<open>
  A library with one key. It hashes two claims, of 5 and of 6 cogs on channel 1 at nonce 0,
  to the digests \<^verbatim>\<open>0x01\<close> and \<^verbatim>\<open>0x02\<close>; the signature of a message is the text of its
  bytes, and recovery returns the signer's address for exactly that text.
\<close>

definition example_signer :: Wallet where
  "example_signer = \<lparr>wallet_address = ''0xSigner'', privateKey = ''0xkey''\<rparr>"

definition claim_lib :: Ethers where
  "claim_lib =
     \<lparr>solidityPackedKeccak256 =
        (\<lambda>vs.
           if vs = [Sol_string ''__MPE_claim_message'', Sol_address ''0xmpe'',
                    Sol_uint256 (Finite 1), Sol_uint256 (Finite 0), Sol_uint256_big 5]
           then Inr ''0x01''
           else if vs = [Sol_string ''__MPE_claim_message'', Sol_address ''0xmpe'',
                         Sol_uint256 (Finite 1), Sol_uint256 (Finite 0), Sol_uint256_big 6]
           then Inr ''0x02''
           else Inl (LibraryError ''invalid value'')),
      getBytes = (\<lambda>h. Inr (Buffer_from_hex (drop 2 h))),
      signMessage =
        (\<lambda>w m. if w = example_signer then Inr (hexlify m) else Inl (LibraryError ''unknown key'')),
      Signature_from = (\<lambda>s. Inr (27, ''0x00'', ''0x00'')),
      verifyMessage =
        (\<lambda>m s. if s = hexlify m then Inr (wallet_address example_signer)
               else Inl (LibraryError ''invalid signature'')),
      ethers_id = (\<lambda>t. ''0xid''),
      isAddress = (\<lambda>a. False)\<rparr>"
section \<open>Facts about rounding\<close>

lemma pow2_pos: "0 < pow2 q"
  by (simp add: pow2_def)

lemma round_half_even_nonneg: "0 \<le> x \<Longrightarrow> 0 \<le> round_half_even x"
  by (auto simp: round_half_even_def Let_def)

lemma round64_pos_nonneg: "0 < x \<Longrightarrow> round64_pos x = Finite p \<Longrightarrow> 0 \<le> p"
proof -
  assume x: "0 < x" and r: "round64_pos x = Finite p"
  define q where "q = max (floor_log2 x - 52) (- 1074)"
  have "0 \<le> x / pow2 q"
    using x pow2_pos [of q] by simp
  then have m: "0 \<le> round_half_even (x / pow2 q)"
    by (rule round_half_even_nonneg)
  from r have "p = of_int (round_half_even (x / pow2 q)) * pow2 q"
    by (simp add: round64_pos_def Let_def q_def split: if_splits)
  with m pow2_pos [of q] show "0 \<le> p"
    by simp
qed

lemma round64_nonneg: "0 \<le> x \<Longrightarrow> round64 x = Finite p \<Longrightarrow> 0 \<le> p"
  using round64_pos_nonneg [of x p] by (auto simp: round64_def split: if_splits)

lemma negate_Finite: "negate n = Finite p \<Longrightarrow> n = Finite (- p)"
  by (cases n) auto

lemma round64_nonpos: "x \<le> 0 \<Longrightarrow> round64 x = Finite p \<Longrightarrow> p \<le> 0"
proof -
  assume x: "x \<le> 0" and r: "round64 x = Finite p"
  show "p \<le> 0"
  proof (cases "x = 0")
    case True
    with r show ?thesis by (simp add: round64_def)
  next
    case False
    with x r have "negate (round64_pos (- x)) = Finite p"
      by (simp add: round64_def)
    then have "round64_pos (- x) = Finite (- p)"
      by (rule negate_Finite)
    with x False round64_pos_nonneg [of "- x" "- p"] show ?thesis
      by simp
  qed
qed

text \<open>
  The exponent is the binary logarithm rounded down, the mantissa is within half a unit of
  the scaled value, and so the rounded value is within half a unit in the last place.
\<close>

lemma bitlen_ge_1: "0 < n \<Longrightarrow> 1 \<le> bitlen n"
  by (auto simp: bitlen_alt_def)

lemma pow2_nonneg_exp: "0 \<le> k \<Longrightarrow> pow2 k = 2 ^ nat k"
  by (simp add: pow2_def)

lemma pow2_neg_exp: "0 \<le> k \<Longrightarrow> pow2 (- k) = 1 / 2 ^ nat k"
  by (cases "k = 0") (simp_all add: pow2_def)

lemma floor_log2_bounds:
  assumes "0 < x"
  shows "pow2 (floor_log2 x) \<le> x \<and> x < pow2 (floor_log2 x + 1)"
proof (cases "1 \<le> x")
  case True
  define n where "n = \<lfloor>x\<rfloor>"
  have n: "0 < n" "of_int n \<le> x" "x < of_int n + 1"
    using True by (simp_all add: n_def) linarith+
  have k: "1 \<le> bitlen n"
    using n(1) by (rule bitlen_ge_1)
  have b: "2 ^ nat (bitlen n - 1) \<le> n" "n < 2 ^ nat (bitlen n)"
    using bitlen_bounds [OF n(1)] by simp_all
  have fl: "floor_log2 x = bitlen n - 1"
    using True by (simp add: floor_log2_def n_def)
  have "pow2 (bitlen n - 1) = of_int (2 ^ nat (bitlen n - 1))"
    using k by (simp add: pow2_def)
  also have "\<dots> \<le> of_int n"
    using b(1) by (simp only: of_int_le_iff)
  finally have lo: "pow2 (bitlen n - 1) \<le> x"
    using n(2) by simp
  have "n + 1 \<le> 2 ^ nat (bitlen n)"
    using b(2) by simp
  then have "(of_int (n + 1) :: rat) \<le> of_int (2 ^ nat (bitlen n))"
    by (simp only: of_int_le_iff)
  moreover have "pow2 (bitlen n) = of_int (2 ^ nat (bitlen n))"
    using k by (simp add: pow2_def)
  ultimately have hi: "x < pow2 (bitlen n)"
    using n(3) by simp
  from lo hi fl show ?thesis
    by simp
next
  case False
  define c where "c = \<lceil>1 / x\<rceil>"
  define k where "k = bitlen (c - 1)"
  have y: "1 < 1 / x"
    using assms False by simp
  have c: "1 / x \<le> of_int c" "of_int c - 1 < 1 / x"
    by (simp_all add: c_def) linarith
  have c2: "0 < c - 1"
    using y c(1) by (smt (verit) of_int_less_iff of_int_1 less_le_trans)
  have k1: "1 \<le> k"
    unfolding k_def using c2 by (rule bitlen_ge_1)
  have b: "2 ^ nat (k - 1) \<le> c - 1" "c - 1 < 2 ^ nat k"
    using bitlen_bounds [OF c2] by (simp_all add: k_def)
  have fl: "floor_log2 x = - k"
    using False by (simp add: floor_log2_def c_def k_def)
  have "c \<le> 2 ^ nat k"
    using b(2) by simp
  then have "(of_int c :: rat) \<le> of_int (2 ^ nat k)"
    by (simp only: of_int_le_iff)
  also have "(of_int (2 ^ nat k) :: rat) = 2 ^ nat k"
    by simp
  finally have "(of_int c :: rat) \<le> 2 ^ nat k" .
  with c(1) have "1 / x \<le> 2 ^ nat k"
    by (rule order_trans)
  then have "1 \<le> 2 ^ nat k * x"
    using assms by (simp add: pos_divide_le_eq)
  then have lo: "pow2 (- k) \<le> x"
    using k1 by (simp add: pow2_neg_exp pos_divide_le_eq mult.commute)
  have "(2 ^ nat (k - 1) :: rat) = of_int (2 ^ nat (k - 1))"
    by simp
  also have "\<dots> \<le> of_int (c - 1)"
    using b(1) by (simp only: of_int_le_iff)
  also have "(of_int (c - 1) :: rat) = of_int c - 1"
    by simp
  also have "\<dots> < 1 / x"
    by (rule c(2))
  finally have "2 ^ nat (k - 1) < 1 / x" .
  then have "2 ^ nat (k - 1) * x < 1"
    using assms by (simp add: pos_less_divide_eq)
  then have "x < 1 / 2 ^ nat (k - 1)"
    by (simp add: pos_less_divide_eq mult.commute)
  moreover have "pow2 (- k + 1) = 1 / 2 ^ nat (k - 1)"
    using k1 pow2_neg_exp [of "k - 1"] by simp
  ultimately have hi: "x < pow2 (- k + 1)"
    by simp
  from lo hi fl show ?thesis
    by simp
qed

lemma round_half_even_near: "\<bar>of_int (round_half_even x) - x\<bar> \<le> 1 / 2"
proof -
  define d where "d = x - of_int \<lfloor>x\<rfloor>"
  have d: "0 \<le> d" "d < 1"
    unfolding d_def by linarith+
  have x: "x = of_int \<lfloor>x\<rfloor> + d"
    by (simp add: d_def)
  have "\<bar>of_int (if d < 1 / 2 then \<lfloor>x\<rfloor> else if 1 / 2 < d then \<lfloor>x\<rfloor> + 1
                    else if even \<lfloor>x\<rfloor> then \<lfloor>x\<rfloor> else \<lfloor>x\<rfloor> + 1) - (of_int \<lfloor>x\<rfloor> + d)\<bar> \<le> 1 / 2"
    using d by (simp add: abs_if)
  then show ?thesis
    unfolding round_half_even_def Let_def d_def [symmetric] using x by simp
qed

lemma round64_pos_near:
  assumes "0 < x" "round64_pos x = Finite p"
  shows "\<bar>p - x\<bar> \<le> pow2 (max (floor_log2 x - 52) (- 1074)) / 2"
proof -
  define q where "q = max (floor_log2 x - 52) (- 1074)"
  have p: "p = of_int (round_half_even (x / pow2 q)) * pow2 q"
    using assms(2) by (simp add: round64_pos_def Let_def q_def split: if_splits)
  have "p - x = (of_int (round_half_even (x / pow2 q)) - x / pow2 q) * pow2 q"
    using pow2_pos [of q] by (simp add: p left_diff_distrib)
  then have "\<bar>p - x\<bar> = \<bar>of_int (round_half_even (x / pow2 q)) - x / pow2 q\<bar> * pow2 q"
    using pow2_pos [of q] by (simp add: abs_mult)
  also have "\<dots> \<le> 1 / 2 * pow2 q"
    using round_half_even_near [of "x / pow2 q"] pow2_pos [of q]
    by (simp only: mult_le_cancel_right) simp
  finally show ?thesis
    by (simp add: q_def)
qed

lemma round64_examples:
  "round64 (1 / 10) = Finite (3602879701896397 / 36028797018963968)"
  "round64 (11 / 10) = Finite (2476979795053773 / 2251799813685248)"
  "Number 9007199254740993 = Finite 9007199254740992"
  "Number 9007199254740995 = Finite 9007199254740996"
  by code_simp+

text \<open>Integers up to \<open>2^53\<close> are doubles: converting them to a number changes nothing.\<close>

lemma round_half_even_of_int: "round_half_even (of_int k) = k"
  by (simp add: round_half_even_def)

lemma bitlen_le_54:
  assumes "0 < n" "n \<le> 2 ^ 53"
  shows "bitlen n \<le> 54"
proof -
  have "(2::int) ^ nat (bitlen n - 1) \<le> n"
    using bitlen_bounds [OF assms(1)] by simp
  from this assms(2) have "(2::int) ^ nat (bitlen n - 1) \<le> 2 ^ 53"
    by (rule order_trans)
  then have "nat (bitlen n - 1) \<le> 53"
    by (rule power_le_imp_le_exp [rotated]) simp
  then show ?thesis
    by simp
qed

lemma round64_pos_of_int:
  assumes "0 < n" "n \<le> 2 ^ 53"
  shows "round64_pos (of_int n) = Finite (of_int n)"
proof -
  define e where "e = bitlen n - 1"
  have fl: "floor_log2 (of_int n) = e"
    using assms(1) by (simp add: floor_log2_def e_def)
  have e0: "0 \<le> e"
    using bitlen_ge_1 [OF assms(1)] by (simp add: e_def)
  have e53: "e \<le> 53"
    using bitlen_le_54 [OF assms] by (simp add: e_def)
  have q: "max (e - 52) (- 1074) = e - 52"
    using e0 by simp
  show ?thesis
  proof (cases "e \<le> 52")
    case True
    define k where "k = nat (52 - e)"
    have p: "pow2 (e - 52) = 1 / of_int (2 ^ k)"
    proof (cases "e = 52")
      case True
      then show ?thesis by (simp add: pow2_def k_def)
    next
      case False
      with \<open>e \<le> 52\<close> have "\<not> 0 \<le> e - 52" by simp
      then show ?thesis by (simp add: pow2_def k_def)
    qed
    have "of_int n / pow2 (e - 52) = (of_int (n * 2 ^ k) :: rat)"
      by (simp add: p)
    then have m: "round_half_even (of_int n / pow2 (e - 52)) = n * 2 ^ k"
      by (simp only: round_half_even_of_int)
    have "(of_int (n * 2 ^ k) :: rat) * pow2 (e - 52) = of_int n"
      by (simp add: p)
    with True show ?thesis
      by (simp only: round64_pos_def fl q Let_def m) simp
  next
    case False
    with e53 have e: "e = 53" by simp
    have "2 ^ 53 \<le> n"
      using bitlen_bounds [OF assms(1)] e by (simp add: e_def)
    with assms(2) have n: "n = 2 ^ 53" by simp
    have p: "pow2 (e - 52) = 2"
      by (simp add: e pow2_def)
    have h: "of_int n / pow2 (e - 52) = (of_int (2 ^ 52) :: rat)"
      by (simp add: p n)
    have m: "round_half_even (of_int n / pow2 (e - 52)) = 2 ^ 52"
      unfolding h by (rule round_half_even_of_int)
    show ?thesis
      by (simp only: round64_pos_def fl q Let_def p) (simp add: e n round_half_even_def)
  qed
qed

lemma Number_safe_integer: "n \<le> 2 ^ 53 \<Longrightarrow> Number (int n) = Finite (of_nat n)"
proof (cases "n = 0")
  case True
  then show ?thesis by (simp add: Number_def round64_def)
next
  case False
  assume "n \<le> 2 ^ 53"
  then have "int n \<le> 2 ^ 53"
    by (metis of_nat_le_iff of_nat_numeral of_nat_power)
  with False have "round64_pos (of_int (int n)) = Finite (of_int (int n))"
    by (intro round64_pos_of_int) simp_all
  with False show ?thesis
    by (simp add: Number_def round64_def)
qed

section \<open>Facts about the encodings\<close>

lemma byte_bound: "unat (b :: byte) < 256"
  using unsigned_less [of b, where 'a = nat] by simp

lemma char_code_char_of: "n < 256 \<Longrightarrow> char_code (char_of n) = n"
  by (simp add: char_code_def)

lemma hex_digit_value_hex_char: "n < 16 \<Longrightarrow> hex_digit_value (hex_char n) = Some n"
  by (simp add: hex_digit_value_def hex_char_def char_code_char_of Let_def)

lemma Buffer_from_hex_hex_bytes: "Buffer_from_hex (concat (map hex_byte bs)) = bs"
proof (induction bs)
  case Nil
  show ?case by simp
next
  case (Cons b bs)
  have hi: "unat b div 16 < 16"
    using byte_bound [of b] by simp
  have lo: "unat b mod 16 < 16"
    by simp
  show ?case
    using Cons.IH by (simp add: hex_byte_def hex_digit_value_hex_char [OF hi] hex_digit_value_hex_char [OF lo])
qed

lemma char_code_base64_char:
  "n < 64 \<Longrightarrow> char_code (base64_char n) =
     (if n < 26 then 65 + n else if n < 52 then 71 + n else if n < 62 then n - 4
      else if n = 62 then 43 else 47)"
  by (simp add: base64_char_def char_code_char_of)

lemma base64_value_base64_char: "n < 64 \<Longrightarrow> base64_value (base64_char n) = Some n"
  by (auto simp: base64_value_def char_code_base64_char Let_def)

lemma base64_char_not_pad: "n < 64 \<Longrightarrow> base64_char n \<noteq> CHR ''=''"
proof
  assume n: "n < 64" and eq: "base64_char n = CHR ''=''"
  have "char_code (base64_char n) = 61"
    by (simp add: eq char_code_def)
  with n show False
    by (simp add: char_code_base64_char split: if_splits)
qed


lemma div_mod_combine:
  fixes q r k :: nat
  assumes "r < k"
  shows "(q * k + r) div k = q" and "(q * k + r) mod k = r"
  using assms by simp_all

lemma sextets:
  fixes a b c :: nat
  assumes "a < 256" "b < 256" "c < 256"
  shows "a div 4 < 64" "a mod 4 * 16 + b div 16 < 64" "b mod 16 * 4 + c div 64 < 64"
    "c mod 64 < 64" "a mod 4 * 16 < 64" "b mod 16 * 4 < 64"
    "a div 4 * 4 + (a mod 4 * 16 + b div 16) div 16 = a"
    "(a mod 4 * 16 + b div 16) mod 16 * 16 + (b mod 16 * 4 + c div 64) div 4 = b"
    "(b mod 16 * 4 + c div 64) mod 4 * 64 + c mod 64 = c"
    "a div 4 * 4 + (a mod 4 * 16) div 16 = a"
    "(a mod 4 * 16 + b div 16) mod 16 * 16 + (b mod 16 * 4) div 4 = b"
proof -
  have a4: "a mod 4 < 4" and b16: "b mod 16 < 16" and c64: "c mod 64 < 64"
    by simp_all
  have bd: "b div 16 < 16" and cd: "c div 64 < 4" and ad: "a div 4 < 64"
    using assms by (simp_all add: less_mult_imp_div_less)
  show "a div 4 < 64" by (rule ad)
  show "a mod 4 * 16 + b div 16 < 64" using a4 bd by linarith
  show "b mod 16 * 4 + c div 64 < 64" using b16 cd by linarith
  show "c mod 64 < 64" by (rule c64)
  show "a mod 4 * 16 < 64" using a4 by linarith
  show "b mod 16 * 4 < 64" using b16 by linarith
  show "a div 4 * 4 + (a mod 4 * 16 + b div 16) div 16 = a"
    by (simp only: div_mod_combine [OF bd]) simp
  show "(a mod 4 * 16 + b div 16) mod 16 * 16 + (b mod 16 * 4 + c div 64) div 4 = b"
    by (simp only: div_mod_combine [OF bd] div_mod_combine [OF cd]) simp
  show "(b mod 16 * 4 + c div 64) mod 4 * 64 + c mod 64 = c"
    by (simp only: div_mod_combine [OF cd]) simp
  show "a div 4 * 4 + (a mod 4 * 16) div 16 = a"
    by simp
  show "(a mod 4 * 16 + b div 16) mod 16 * 16 + (b mod 16 * 4) div 4 = b"
    by (simp only: div_mod_combine [OF bd]) simp
qed

lemma of_nat_unat_byte: "n = unat (b :: byte) \<Longrightarrow> (of_nat n :: byte) = b"
  by simp

lemma base64_decode_quad:
  assumes "x1 < 64" "x2 < 64" "x3 < 64" "x4 < 64"
  shows "base64_decode (base64_char x1 # base64_char x2 # base64_char x3 # base64_char x4 # rest) =
     (case base64_decode rest of
        None \<Rightarrow> None
      | Some bs \<Rightarrow> Some (of_nat (x1 * 4 + x2 div 16) # of_nat (x2 mod 16 * 16 + x3 div 4)
                        # of_nat (x3 mod 4 * 64 + x4) # bs))"
  using assms by (simp add: base64_value_base64_char base64_char_not_pad del: of_nat_add of_nat_mult)

lemma base64_decode_pad1:
  assumes "x1 < 64" "x2 < 64" "x3 < 64"
  shows "base64_decode [base64_char x1, base64_char x2, base64_char x3, CHR ''=''] =
     Some [of_nat (x1 * 4 + x2 div 16), of_nat (x2 mod 16 * 16 + x3 div 4)]"
  using assms by (simp add: base64_value_base64_char base64_char_not_pad del: of_nat_add of_nat_mult)

lemma base64_decode_pad2:
  assumes "x1 < 64" "x2 < 64"
  shows "base64_decode [base64_char x1, base64_char x2, CHR ''='', CHR ''=''] =
     Some [of_nat (x1 * 4 + x2 div 16)]"
  using assms by (simp add: base64_value_base64_char del: of_nat_add of_nat_mult)

lemma base64_decode_toString_base64: "base64_decode (toString_base64 bs) = Some bs"
proof (induction bs rule: toString_base64.induct)
  case 1
  show ?case by simp
next
  case (2 a)
  note s = sextets [OF byte_bound [of a] byte_bound [of a] byte_bound [of a]]
  have "(of_nat (unat a div 4 * 4 + unat a mod 4 * 16 div 16) :: byte) = a"
    by (rule of_nat_unat_byte) (simp only: s)
  then show ?case
    by (simp only: toString_base64.simps base64_decode_pad2 [OF s(1) s(5)])
next
  case (3 a b)
  note s = sextets [OF byte_bound [of a] byte_bound [of b] byte_bound [of b]]
  have "(of_nat (unat a div 4 * 4 + (unat a mod 4 * 16 + unat b div 16) div 16) :: byte) = a"
    by (rule of_nat_unat_byte) (simp only: s)
  moreover have "(of_nat ((unat a mod 4 * 16 + unat b div 16) mod 16 * 16 + unat b mod 16 * 4 div 4) :: byte) = b"
    by (rule of_nat_unat_byte) (simp only: s)
  ultimately show ?case
    by (simp only: toString_base64.simps base64_decode_pad1 [OF s(1) s(2) s(6)])
next
  case (4 a b c rest)
  note s = sextets [OF byte_bound [of a] byte_bound [of b] byte_bound [of c]]
  have "(of_nat (unat a div 4 * 4 + (unat a mod 4 * 16 + unat b div 16) div 16) :: byte) = a"
    by (rule of_nat_unat_byte) (simp only: s)
  moreover have "(of_nat ((unat a mod 4 * 16 + unat b div 16) mod 16 * 16 + (unat b mod 16 * 4 + unat c div 64) div 4) :: byte) = b"
    by (rule of_nat_unat_byte) (simp only: s)
  moreover have "(of_nat ((unat b mod 16 * 4 + unat c div 64) mod 4 * 64 + unat c mod 64) :: byte) = c"
    by (rule of_nat_unat_byte) (simp only: s)
  ultimately show ?case
    by (simp only: toString_base64.simps append_Cons append_Nil
          base64_decode_quad [OF s(1) s(2) s(3) s(4)] "4.IH" option.case)
qed

section \<open>Facts about reading hexadecimal numbers\<close>

lemma hex_digit_value_bound: "hex_digit_value c = Some d \<Longrightarrow> d < 16"
  by (auto simp: hex_digit_value_def Let_def split: if_splits)

lemma hex_number_snoc:
  "hex_number acc (cs @ [c]) =
     16 * hex_number acc cs + (case hex_digit_value c of Some d \<Rightarrow> d | None \<Rightarrow> 0)"
  by (induction cs arbitrary: acc) simp_all

lemma hex_number_hex_fixed: "hex_number 0 (hex_fixed k n) = n mod 16 ^ k"
proof (induction k arbitrary: n)
  case 0
  show ?case by simp
next
  case (Suc k)
  have "hex_number 0 (hex_fixed (Suc k) n) = 16 * (n div 16 mod 16 ^ k) + n mod 16"
    by (simp add: hex_number_snoc Suc.IH hex_digit_value_hex_char)
  also have "\<dots> = n mod (16 * 16 ^ k)"
    by (simp add: mod_mult2_eq)
  finally show ?case by simp
qed

lemma hex_fixed_digits: "list_all is_hex_digit (hex_fixed k n)"
  by (induction k arbitrary: n) (simp_all add: is_hex_digit_def hex_digit_value_hex_char)

lemma length_hex_fixed: "length (hex_fixed k n) = k"
  by (induction k arbitrary: n) simp_all

lemma zero_not_space: "\<not> is_whitespace CHR ''0''"
  by (simp add: is_whitespace_def char_code_def)

lemma parseInt16_prefixed:
  assumes "zs \<noteq> []" "list_all is_hex_digit zs"
  shows "parseInt16 (Some (''0x'' @ zs)) = round64 (of_nat (hex_number 0 zs))"
proof -
  have tw: "takeWhile is_hex_digit zs = zs"
    using assms(2) by (simp add: takeWhile_eq_all_conv list_all_iff)
  show ?thesis
    by (simp add: parseInt16_def zero_not_space Let_def tw assms(1))
qed

lemma parseInt16_uint256_topic:
  assumes "n \<le> 2 ^ 53"
  shows "parseInt16 (Some (uint256_topic n)) = Finite (of_nat n)"
proof -
  have ne: "hex_fixed 64 n \<noteq> []"
    using length_hex_fixed [of 64 n] by auto
  have "(2::nat) ^ 53 < 16 ^ 64"
    by simp
  with assms have "n < 16 ^ 64"
    by (rule le_less_trans)
  then have "n mod 16 ^ 64 = n"
    by simp
  then have "parseInt16 (Some (uint256_topic n)) = Number (int n)"
    by (simp only: uint256_topic_def parseInt16_prefixed [OF ne hex_fixed_digits]
          hex_number_hex_fixed Number_def of_int_of_nat_eq)
  with assms show ?thesis
    by (simp only: Number_safe_integer)
qed

lemma parseInt16_undefined: "parseInt16 None = NaN"
  by code_simp

lemma find_none: "(\<forall>l \<in> set ls. \<not> P l) \<Longrightarrow> find P ls = None"
  by (simp add: find_None_iff)

lemma find_first: "(\<forall>l \<in> set pre. \<not> P l) \<Longrightarrow> P ev \<Longrightarrow> find P (pre @ ev # post) = Some ev"
  by (induction pre) simp_all

section \<open>A signed claim verifies and binds its fields\<close>

lemma generatePaymentSignature_Inr:
  assumes "generatePaymentSignature lib signer mpeAddress channelId nonce amount = Inr sg"
  shows "\<exists>h b. solidityPackedKeccak256 lib
            [Sol_string ''__MPE_claim_message'', Sol_address mpeAddress, Sol_uint256 channelId,
             Sol_uint256 nonce, Sol_uint256_big amount] = Inr h \<and>
          getBytes lib h = Inr b \<and> signMessage lib signer b = Inr (ps_signature sg)"
  using assms
  by (auto simp: generatePaymentSignature_def bind_result_def split: sum.splits prod.splits)

lemma hexlify_inject:
  assumes "hexlify m = hexlify m'"
  shows "m = m'"
proof -
  have "m = Buffer_from_hex (drop 2 (hexlify m))"
    by (simp add: hexlify_def Buffer_from_hex_hex_bytes)
  also have "\<dots> = Buffer_from_hex (drop 2 (hexlify m'))"
    by (simp only: assms)
  also have "\<dots> = m'"
    by (simp add: hexlify_def Buffer_from_hex_hex_bytes)
  finally show ?thesis .
qed

lemma digest_bytes:
  "Buffer_from_hex ''01'' = [1]" "Buffer_from_hex ''02'' = [2]" "hexlify [1] = ''0x01''"
  by code_simp+

lemma claim_lib_recovers:
  "\<forall>w m s. signMessage claim_lib w m = Inr s \<longrightarrow>
     verifyMessage claim_lib m s = Inr (wallet_address w)"
  by (auto simp: claim_lib_def split: if_splits)

lemma claim_lib_binds:
  "\<forall>w m m' s a. signMessage claim_lib w m = Inr s \<and> m' \<noteq> m \<and>
       verifyMessage claim_lib m' s = Inr a \<longrightarrow>
     toLowerCase a \<noteq> toLowerCase (wallet_address w)"
  by (auto simp: claim_lib_def split: if_splits dest: hexlify_inject)

lemma claim_lib_collision_free:
  "\<forall>a c n v a' c' n' v' h h' b.
     solidityPackedKeccak256 claim_lib
       [Sol_string ''__MPE_claim_message'', Sol_address a, Sol_uint256 c, Sol_uint256 n,
        Sol_uint256_big v] = Inr h \<and>
     getBytes claim_lib h = Inr b \<and>
     solidityPackedKeccak256 claim_lib
       [Sol_string ''__MPE_claim_message'', Sol_address a', Sol_uint256 c', Sol_uint256 n',
        Sol_uint256_big v'] = Inr h' \<and>
     getBytes claim_lib h' = Inr b \<longrightarrow>
     a = a' \<and> c = c' \<and> n = n' \<and> v = v'"
  by (auto simp: claim_lib_def digest_bytes simp del: Buffer_from_hex.simps split: if_splits)

lemma claim_lib_signs:
  "generatePaymentSignature claim_lib example_signer ''0xmpe'' (Finite 1) (Finite 0) 5 =
     Inr \<lparr>ps_signature = ''0x01'', ps_v = 27, ps_r = ''0x00'', ps_s = ''0x00''\<rparr>"
  by (simp add: generatePaymentSignature_def claim_lib_def bind_result_def digest_bytes
      del: Buffer_from_hex.simps)

text \<open>
  Claim C1: for every signer key, MPE contract address, channel id, nonce and cumulative
  amount, verifying a claim produced by the claim signer with the same five arguments and
  the signer's address returns \<open>true\<close>, and verifying it after altering any one of channel
  id, nonce, cumulative amount or MPE address returns \<open>false\<close>: the signature binds all
  four fields.

  The signing, the recovery and the hash are the library's, so the theorem states what it
  uses of them. The signature that a wallet makes of a message recovers, on that message,
  to the wallet's address; on another message it recovers, if at all, to another address;
  and two claims with the same digest bytes have the same channel id, nonce and amount,
  and addresses that are related by \<open>same_address\<close>. The relation is arbitrary: with
  equality of strings it is the claim as written, and with equality of the addresses that
  two strings spell it is the contract of a hash that packs the address and not its
  spelling. The first premise is that the signer produced a claim: the library refuses
  to pack a channel id that is no unsigned integer.
\<close>

theorem signed_claim_verifies_and_binds:
  assumes "generatePaymentSignature lib signer mpeAddress channelId nonce amount = Inr sg"
    and "\<forall>w m s. signMessage lib w m = Inr s \<longrightarrow> verifyMessage lib m s = Inr (wallet_address w)"
    and "\<forall>w m m' s a. signMessage lib w m = Inr s \<and> m' \<noteq> m \<and> verifyMessage lib m' s = Inr a \<longrightarrow>
           toLowerCase a \<noteq> toLowerCase (wallet_address w)"
    and "\<forall>a c n v a' c' n' v' h h' b.
           solidityPackedKeccak256 lib
             [Sol_string ''__MPE_claim_message'', Sol_address a, Sol_uint256 c, Sol_uint256 n,
              Sol_uint256_big v] = Inr h \<and>
           getBytes lib h = Inr b \<and>
           solidityPackedKeccak256 lib
             [Sol_string ''__MPE_claim_message'', Sol_address a', Sol_uint256 c', Sol_uint256 n',
              Sol_uint256_big v'] = Inr h' \<and>
           getBytes lib h' = Inr b \<longrightarrow>
           same_address a a' \<and> c = c' \<and> n = n' \<and> v = v'"
  shows "verifyPaymentSignature lib mpeAddress channelId nonce amount (ps_signature sg)
           (wallet_address signer) = Inr True \<and>
         (\<not> same_address mpeAddress mpeAddress' \<or> channelId' \<noteq> channelId \<or> nonce' \<noteq> nonce \<or>
          amount' \<noteq> amount \<longrightarrow>
            verifyPaymentSignature lib mpeAddress' channelId' nonce' amount' (ps_signature sg)
              (wallet_address signer) = Inr False)"
proof -
  from generatePaymentSignature_Inr [OF assms(1)] obtain h b where
    h: "solidityPackedKeccak256 lib
          [Sol_string ''__MPE_claim_message'', Sol_address mpeAddress, Sol_uint256 channelId,
           Sol_uint256 nonce, Sol_uint256_big amount] = Inr h"
    and b: "getBytes lib h = Inr b"
    and s: "signMessage lib signer b = Inr (ps_signature sg)"
    by blast
  from assms(2) s have rec: "verifyMessage lib b (ps_signature sg) = Inr (wallet_address signer)"
    by blast
  have pos: "verifyPaymentSignature lib mpeAddress channelId nonce amount (ps_signature sg)
      (wallet_address signer) = Inr True"
    by (simp add: verifyPaymentSignature_def try_catch_def bind_result_def h b rec)
  have neg: "verifyPaymentSignature lib mpeAddress' channelId' nonce' amount' (ps_signature sg)
      (wallet_address signer) = Inr False"
    if alt: "\<not> same_address mpeAddress mpeAddress' \<or> channelId' \<noteq> channelId \<or> nonce' \<noteq> nonce \<or>
      amount' \<noteq> amount"
  proof (cases "solidityPackedKeccak256 lib
          [Sol_string ''__MPE_claim_message'', Sol_address mpeAddress', Sol_uint256 channelId',
           Sol_uint256 nonce', Sol_uint256_big amount']")
    case (Inl e)
    then show ?thesis
      by (simp add: verifyPaymentSignature_def try_catch_def bind_result_def)
  next
    case (Inr h')
    show ?thesis
    proof (cases "getBytes lib h'")
      case (Inl e)
      with Inr show ?thesis
        by (simp add: verifyPaymentSignature_def try_catch_def bind_result_def)
    next
      case b': (Inr b')
      have "b' \<noteq> b"
      proof
        assume "b' = b"
        with assms(4) h b Inr b' have
          "same_address mpeAddress mpeAddress' \<and> channelId = channelId' \<and> nonce = nonce' \<and>
           amount = amount'"
          by blast
        with alt show False
          by blast
      qed
      show ?thesis
      proof (cases "verifyMessage lib b' (ps_signature sg)")
        case (Inl e)
        with Inr b' show ?thesis
          by (simp add: verifyPaymentSignature_def try_catch_def bind_result_def)
      next
        case a: (Inr a)
        from assms(3) s \<open>b' \<noteq> b\<close> a
        have "toLowerCase a \<noteq> toLowerCase (wallet_address signer)"
          by blast
        with Inr b' a show ?thesis
          by (simp add: verifyPaymentSignature_def try_catch_def bind_result_def)
      qed
    qed
  qed
  from pos neg show ?thesis
    by blast
qed

text \<open>
  The theorem at the example library: the claim of 5 cogs verifies, and it verifies neither
  as a claim of 6 cogs, which the library hashes to another digest, nor at another
  contract address, which the library refuses to hash.
\<close>

theorem signed_claim_verifies_and_binds_witness:
  "verifyPaymentSignature claim_lib ''0xmpe'' (Finite 1) (Finite 0) 5 ''0x01''
     (wallet_address example_signer) = Inr True \<and>
   verifyPaymentSignature claim_lib ''0xmpe'' (Finite 1) (Finite 0) 6 ''0x01''
     (wallet_address example_signer) = Inr False \<and>
   verifyPaymentSignature claim_lib ''0xother'' (Finite 1) (Finite 0) 5 ''0x01''
     (wallet_address example_signer) = Inr False"
  using signed_claim_verifies_and_binds
      [OF claim_lib_signs claim_lib_recovers claim_lib_binds claim_lib_collision_free,
       of "''0xmpe''" "Finite 1" "Finite 0" 6]
    signed_claim_verifies_and_binds
      [OF claim_lib_signs claim_lib_recovers claim_lib_binds claim_lib_collision_free,
       of "''0xother''" "Finite 1" "Finite 0" 5]
  by simp

section \<open>Unit conversion round trip\<close>

text \<open>
  Claim C2: for every non-negative safe integer \<open>c\<close>, converting \<open>c\<close> smallest units to the
  display denomination and back yields \<open>c\<close>, for cogs/AGIX, wei/ETH and lovelace/ADA.

  The conversions go through doubles: \<^verbatim>\<open>Number(c) / 1e8\<close> is rounded, and so is the product
  with \<^verbatim>\<open>1e8\<close> on the way back, which can land just below \<open>c\<close>; \<^verbatim>\<open>Math.floor\<close> then loses
  a whole unit. The code evaluated at 3 cogs, 447 wei and 249 lovelace:
\<close>

theorem round_trip_loses_a_unit:
  "bind_result (cogsToAgix bs (Big 3)) (\<lambda>a. agixToCogs pf (Num a)) = Inr 2 \<and>
   bind_result (weiToEth bs (Big 447)) (\<lambda>a. ethToWei pf (Num a)) = Inr 446 \<and>
   bind_result (lovelaceToAda bs (Big 249)) (\<lambda>a. adaToLovelace pf (Num a)) = Inr 248"
  unfolding cogsToAgix_def agixToCogs_def weiToEth_def ethToWei_def lovelaceToAda_def
    adaToLovelace_def units_bigint_def amount_number_def bind_result_def
  by code_simp

section \<open>Minimum deposit\<close>

text \<open>
  Claim C3: the minimum deposit is the exact integer ceiling of
  \<open>pricePerCall * expectedCalls * safetyMultiplier\<close>; in particular
  \<^verbatim>\<open>calculateMinimumDeposit(1000000n, 100, 1.1)\<close> is exactly 110000000.

  The code multiplies doubles. The literal \<^verbatim>\<open>1.1\<close> is the double nearest to 11/10, and the
  product with 100000000 rounds to a double just above 110000000, so \<^verbatim>\<open>Math.ceil\<close> gives
  one cog more:
\<close>

theorem calculateMinimumDeposit_drift:
  "calculateMinimumDeposit 1000000 (Finite 100) (Some (round64 (11 / 10))) = Inr 110000001"
  by code_simp

section \<open>The verifier never throws\<close>

lemma toLowerCase_examples:
  "toLowerCase ''0xAbCd'' = ''0xabcd''" "toLowerCase ''0xABCD'' = ''0xabcd''"
  "toLowerCase ''0xabce'' = ''0xabce''" "toLowerCase ''0xabcd'' = ''0xabcd''"
  by code_simp+

text \<open>
  Claim C4: for every input, malformed signature strings included, the claim verifier
  never throws: it returns \<open>false\<close> on every verification failure, and when it recovers a
  signer it compares the recovered address with the expected signer without regard to
  letter case.

  The library functions are arbitrary: whichever of the hash, the conversion to bytes and
  the recovery throws, the \<^verbatim>\<open>catch\<close> returns \<open>false\<close>.
\<close>

theorem verifyPaymentSignature_never_throws:
  "(\<exists>b. verifyPaymentSignature lib mpeAddress channelId nonce amount signature expectedSigner = Inr b) \<and>
   (solidityPackedKeccak256 lib
      [Sol_string ''__MPE_claim_message'', Sol_address mpeAddress, Sol_uint256 channelId,
       Sol_uint256 nonce, Sol_uint256_big amount] = Inl e \<longrightarrow>
    verifyPaymentSignature lib mpeAddress channelId nonce amount signature expectedSigner = Inr False) \<and>
   (solidityPackedKeccak256 lib
      [Sol_string ''__MPE_claim_message'', Sol_address mpeAddress, Sol_uint256 channelId,
       Sol_uint256 nonce, Sol_uint256_big amount] = Inr h \<longrightarrow>
    (getBytes lib h = Inl e \<longrightarrow>
       verifyPaymentSignature lib mpeAddress channelId nonce amount signature expectedSigner = Inr False) \<and>
    (getBytes lib h = Inr m \<longrightarrow>
       (verifyMessage lib m signature = Inl e \<longrightarrow>
          verifyPaymentSignature lib mpeAddress channelId nonce amount signature expectedSigner = Inr False) \<and>
       (verifyMessage lib m signature = Inr recovered \<longrightarrow>
          verifyPaymentSignature lib mpeAddress channelId nonce amount signature expectedSigner =
            Inr (toLowerCase recovered = toLowerCase expectedSigner))))"
  by (auto simp: verifyPaymentSignature_def try_catch_def bind_result_def split: sum.splits)

text \<open>The theorem at a recovered address in mixed case, a wrong signer and a bad signature.\<close>

theorem verifyPaymentSignature_never_throws_witness:
  "verifyPaymentSignature (signing_lib []) ''0xmpe'' (Finite 1) (Finite 0) 5 ''0x01'' ''0xABCD'' = Inr True \<and>
   verifyPaymentSignature (signing_lib []) ''0xmpe'' (Finite 1) (Finite 0) 5 ''0x01'' ''0xabce'' = Inr False \<and>
   verifyPaymentSignature (signing_lib []) ''0xmpe'' (Finite 1) (Finite 0) 5 ''zz'' ''0xabcd'' = Inr False"
  using verifyPaymentSignature_never_throws
      [of "signing_lib []" "''0xmpe''" "Finite 1" "Finite 0" 5 "''0x01''" "''0xABCD''"
          "LibraryError ''invalid signature''" "''0x00''" "[0]" "''0xAbCd''"]
    verifyPaymentSignature_never_throws
      [of "signing_lib []" "''0xmpe''" "Finite 1" "Finite 0" 5 "''0x01''" "''0xabce''"
          "LibraryError ''invalid signature''" "''0x00''" "[0]" "''0xAbCd''"]
    verifyPaymentSignature_never_throws
      [of "signing_lib []" "''0xmpe''" "Finite 1" "Finite 0" 5 "''zz''" "''0xabcd''"
          "LibraryError ''invalid signature''" "''0x00''" "[0]" "''0xAbCd''"]
  by (simp add: signing_lib_def toLowerCase_examples)

section \<open>Signature bytes in the metadata\<close>

lemma length_hex_bytes: "length (concat (map hex_byte bs)) = 2 * length bs"
  by (induction bs) (simp_all add: hex_byte_def)

lemma text_is_not_the_bytes: "Buffer_from_utf8 (hexlify bs) \<noteq> bs"
proof
  assume "Buffer_from_utf8 (hexlify bs) = bs"
  then have "length (Buffer_from_utf8 (hexlify bs)) = length bs"
    by simp
  then show False
    by (simp add: Buffer_from_utf8_def hexlify_def length_hex_bytes)
qed

lemma Buffer_from_hex_slice: "Buffer_from_hex (drop 2 (hexlify bs)) = bs"
  by (simp add: hexlify_def Buffer_from_hex_hex_bytes)

lemma token_example:
  "generateFreeCallToken (signing_lib [171, 205]) w u org sv blk = Inr ''MHhhYmNk''"
  unfolding generateFreeCallToken_def signing_lib_def bind_result_def
  by code_simp

lemma header_example:
  "createPaymentMetadata ts c n a \<lparr>ps_signature = ''0xabcd'', ps_v = 27, ps_r = r, ps_s = s\<rparr>
     ''snet-payment-channel-signature-bin'' = Some ''q80=''"
  unfolding createPaymentMetadata_def
  by code_simp

text \<open>
  Claim C5: for every claim signature produced by the signer, \<^verbatim>\<open>createPaymentMetadata\<close>
  puts all five logical fields in the map, and base64-decoding the value of
  \<^verbatim>\<open>snet-payment-channel-signature-bin\<close> yields exactly the raw signature bytes; the same
  exact round trip holds for the token of \<^verbatim>\<open>generateFreeCallToken\<close>.

  The signature of the bytes \<open>bs\<close> is the text \<open>hexlify bs\<close>. The payment metadata drop
  the \<^verbatim>\<open>0x\<close> and decode the digits before encoding, so the header decodes to \<open>bs\<close>. The
  free-call token encodes the text of the signature itself: it decodes to the characters
  of \<open>hexlify bs\<close>, which are never the bytes \<open>bs\<close>.
\<close>

theorem signature_header_round_trip_but_not_token:
  "dom (createPaymentMetadata ts channelId nonce amount
          \<lparr>ps_signature = hexlify bs, ps_v = v, ps_r = r, ps_s = s\<rparr>) =
     {''snet-payment-type'', ''snet-payment-channel-id'', ''snet-payment-channel-nonce'',
      ''snet-payment-channel-amount'', ''snet-payment-channel-signature-bin''} \<and>
   map_option base64_decode
     (createPaymentMetadata ts channelId nonce amount
        \<lparr>ps_signature = hexlify bs, ps_v = v, ps_r = r, ps_s = s\<rparr>
        ''snet-payment-channel-signature-bin'') = Some (Some bs) \<and>
   map_option base64_decode
     (GrpcClient_createPaymentMetadata ts channelId nonce amount (hexlify bs)
        ''snet-payment-channel-signature-bin'') = Some (Some bs) \<and>
   bind_result (generateFreeCallToken (signing_lib bs) w userAddress organizationId serviceId currentBlock)
     (\<lambda>token. Inr (base64_decode token)) = Inr (Some (Buffer_from_utf8 (hexlify bs))) \<and>
   Buffer_from_utf8 (hexlify bs) \<noteq> bs"
proof -
  have "dom (createPaymentMetadata ts channelId nonce amount
          \<lparr>ps_signature = hexlify bs, ps_v = v, ps_r = r, ps_s = s\<rparr>) =
     {''snet-payment-type'', ''snet-payment-channel-id'', ''snet-payment-channel-nonce'',
      ''snet-payment-channel-amount'', ''snet-payment-channel-signature-bin''}"
    by (auto simp: createPaymentMetadata_def dom_map_of_conv_image_fst)
  moreover have "map_option base64_decode
     (createPaymentMetadata ts channelId nonce amount
        \<lparr>ps_signature = hexlify bs, ps_v = v, ps_r = r, ps_s = s\<rparr>
        ''snet-payment-channel-signature-bin'') = Some (Some bs)"
    by (simp add: createPaymentMetadata_def Buffer_from_hex_slice base64_decode_toString_base64)
  moreover have "map_option base64_decode
     (GrpcClient_createPaymentMetadata ts channelId nonce amount (hexlify bs)
        ''snet-payment-channel-signature-bin'') = Some (Some bs)"
    by (simp add: GrpcClient_createPaymentMetadata_def Buffer_from_hex_slice
          base64_decode_toString_base64)
  moreover have "bind_result
       (generateFreeCallToken (signing_lib bs) w userAddress organizationId serviceId currentBlock)
       (\<lambda>token. Inr (base64_decode token)) = Inr (Some (Buffer_from_utf8 (hexlify bs)))"
    by (simp add: generateFreeCallToken_def signing_lib_def bind_result_def
          base64_decode_toString_base64)
  ultimately show ?thesis
    using text_is_not_the_bytes [of bs] by blast
qed

section \<open>The channel id of a newly opened channel\<close>

lemma example_no_event:
  "\<forall>l \<in> set [\<lparr>topics = [''0xother'', uint256_topic 7]\<rparr>]. \<not> is_ChannelOpen (signing_lib []) l"
  by (simp add: is_ChannelOpen_def nth_opt_def signing_lib_def)




section \<open>Amounts that are negative or not finite\<close>

lemma js_mul_examples:
  "js_mul (Finite (1 + 1 / 2 ^ 30)) COGS_PER_AGIX = Finite ((1 + 1 / 2 ^ 30) * 100000000)"
  "js_mul (Finite (- 5 / 2)) COGS_PER_AGIX = Finite (- 250000000)"
  by code_simp+

lemma truncated_example: "trunc_toward_zero ((1 + 1 / 2 ^ 30) * 100000000) = 100000000"
  by code_simp

text \<open>
  How far the double product of a positive amount can lie from the amount in cogs: half a
  unit in the last place of the product.
\<close>

lemma cogs_product_near:
  assumes "0 < x" and "js_mul (Finite x) COGS_PER_AGIX = Finite p"
  shows "\<bar>p - x * 100000000\<bar> \<le> pow2 (max (floor_log2 (x * 100000000) - 52) (- 1074)) / 2"
proof -
  from assms have "round64_pos (x * 100000000) = Finite p"
    by (simp add: COGS_PER_AGIX_def round64_def)
  moreover from assms(1) have "0 < x * 100000000"
    by simp
  ultimately show ?thesis
    by (rule round64_pos_near [rotated])
qed




section \<open>Reading a channel\<close>

lemma Number_examples: "Number 0 = Finite 0" "Number 11520 = Finite 11520"
  by code_simp+

text \<open>
  Claim C8: \<^verbatim>\<open>getChannel(channelId)\<close> is a pure read that fails with ChannelNotFound for
  every channel id that the ledger never assigned, and returns the decoded channel for
  every assigned id.

  As amended: \<^verbatim>\<open>getChannel\<close> is a pure read with no check of its own for a missing
  channel. It raises only when the contract is not initialised, or when the contract's
  \<^verbatim>\<open>channels\<close> read raises, and then with that very error. Whenever the read answers a
  tuple it returns the tuple decoded by position (as \<^verbatim>\<open>parseChannelData\<close> decodes it)
  under the channel id that was asked for.
\<close>

theorem getChannel_passes_the_read_on:
  "(contracts_mpe client = None \<longrightarrow>
      getChannel client channelId = Inl (Error ''MPE contract not initialized'')) \<and>
   (contracts_mpe client = Some mpe \<longrightarrow>
      (mpe_channels mpe channelId = Inl e \<longrightarrow> getChannel client channelId = Inl e) \<and>
      (mpe_channels mpe channelId = Inr (c0, c1, c2, c3, c4, c5, c6) \<longrightarrow>
         getChannel client channelId =
           Inr \<lparr>ch_channelId = channelId, ch_nonce = Number c0, ch_sender = c1, ch_signer = c2,
                ch_recipient = c3, ch_groupId = c4, ch_value = c5, ch_expiration = Number c6\<rparr> \<and>
         getChannel client channelId =
           Inr ((parseChannelData (c0, c1, c2, c3, c4, c5, c6))\<lparr>ch_channelId := channelId\<rparr>)))"
  by (simp add: getChannel_def bind_result_def parseChannelData_def)

text \<open>The amended claim on a ledger where channel 3 is assigned.\<close>

theorem getChannel_passes_the_read_on_witness:
  "getChannel
     (example_client []
        [Finite 3 \<mapsto> (0, ''0xsender'', ''0xsigner'', ''0xrecipient'', ''0xgroup'', 500000000, 11520)])
     (Finite 3) =
   Inr \<lparr>ch_channelId = Finite 3, ch_nonce = Finite 0, ch_sender = ''0xsender'',
        ch_signer = ''0xsigner'', ch_recipient = ''0xrecipient'', ch_groupId = ''0xgroup'',
        ch_value = 500000000, ch_expiration = Finite 11520\<rparr>"
  using getChannel_passes_the_read_on
      [of "example_client []
             [Finite 3 \<mapsto> (0, ''0xsender'', ''0xsigner'', ''0xrecipient'', ''0xgroup'', 500000000, 11520)]"
          "Finite 3"
          "example_mpe []
             [Finite 3 \<mapsto> (0, ''0xsender'', ''0xsigner'', ''0xrecipient'', ''0xgroup'', 500000000, 11520)]"
          "Error []" 0 "''0xsender''" "''0xsigner''" "''0xrecipient''" "''0xgroup''" 500000000 11520]
  by (simp add: example_client_def example_mpe_def Number_examples)

text \<open>
  The claim as stated fails on a ledger that never assigned channel 7: the getter of the
  mapping answers the all-zero tuple and \<^verbatim>\<open>getChannel\<close> returns it as a channel.
\<close>

theorem getChannel_unassigned_counterexample:
  "getChannel (example_client [] Map.empty) (Finite 7) =
   Inr \<lparr>ch_channelId = Finite 7, ch_nonce = Finite 0, ch_sender = zero_address,
        ch_signer = zero_address, ch_recipient = zero_address, ch_groupId = zero_bytes32,
        ch_value = 0, ch_expiration = Finite 0\<rparr>"
  by (simp add: getChannel_def example_client_def example_mpe_def bind_result_def Number_examples)

section \<open>Address checks\<close>

lemma matches_1_payload_iff:
  "matches_1_payload s \<longleftrightarrow>
     (\<exists>p. p \<noteq> [] \<and> list_all (\<lambda>x. is_lower x \<or> is_digit x) p \<and> s = ''1'' @ p)"
  by (cases s) (auto simp: matches_1_payload_def)

lemma starts_with_iff: "starts_with p s \<longleftrightarrow> (\<exists>r. s = p @ r)"
proof
  assume "starts_with p s"
  then have "s = p @ drop (length p) s"
    by (metis append_take_drop_id starts_with_def)
  then show "\<exists>r. s = p @ r" ..
next
  assume "\<exists>r. s = p @ r"
  then show "starts_with p s"
    by (auto simp: starts_with_def)
qed

lemma CardanoClient_isValidAddress_iff:
  "CardanoClient_isValidAddress a \<longleftrightarrow>
     (\<exists>p. p \<noteq> [] \<and> list_all (\<lambda>x. is_lower x \<or> is_digit x) p \<and>
          (a = ''addr1'' @ p \<or> a = ''addr_test1'' @ p))"
proof
  assume v: "CardanoClient_isValidAddress a"
  then obtain r where a: "a = ''addr'' @ r"
    by (auto simp: CardanoClient_isValidAddress_def starts_with_iff)
  from v a have "(starts_with ''_test'' r \<and> matches_1_payload (drop 5 r)) \<or> matches_1_payload r"
    by (simp add: CardanoClient_isValidAddress_def)
  then show "\<exists>p. p \<noteq> [] \<and> list_all (\<lambda>x. is_lower x \<or> is_digit x) p \<and>
          (a = ''addr1'' @ p \<or> a = ''addr_test1'' @ p)"
  proof
    assume t: "starts_with ''_test'' r \<and> matches_1_payload (drop 5 r)"
    then obtain r' where r: "r = ''_test'' @ r'"
      by (auto simp: starts_with_iff)
    with t obtain p where "p \<noteq> []" "list_all (\<lambda>x. is_lower x \<or> is_digit x) p" "r' = ''1'' @ p"
      by (auto simp: matches_1_payload_iff)
    with a r show ?thesis
      by auto
  next
    assume "matches_1_payload r"
    then obtain p where "p \<noteq> []" "list_all (\<lambda>x. is_lower x \<or> is_digit x) p" "r = ''1'' @ p"
      by (auto simp: matches_1_payload_iff)
    with a show ?thesis
      by auto
  qed
next
  assume "\<exists>p. p \<noteq> [] \<and> list_all (\<lambda>x. is_lower x \<or> is_digit x) p \<and>
          (a = ''addr1'' @ p \<or> a = ''addr_test1'' @ p)"
  then obtain p where p: "p \<noteq> []" "list_all (\<lambda>x. is_lower x \<or> is_digit x) p"
    and a: "a = ''addr1'' @ p \<or> a = ''addr_test1'' @ p"
    by blast
  from p have m: "matches_1_payload (CHR ''1'' # p)"
    by (simp add: matches_1_payload_def)
  from a show "CardanoClient_isValidAddress a"
  proof
    assume "a = ''addr1'' @ p"
    with m show ?thesis
      by (simp add: CardanoClient_isValidAddress_def starts_with_def)
  next
    assume "a = ''addr_test1'' @ p"
    with m show ?thesis
      by (simp add: CardanoClient_isValidAddress_def starts_with_def)
  qed
qed

lemma hex_address_starts_0x: "is_hex_address a \<Longrightarrow> \<exists>r. a = ''0x'' @ r"
proof -
  assume "is_hex_address a"
  then have "take 2 a = ''0x''"
    by (simp add: is_hex_address_def)
  then have "a = ''0x'' @ drop 2 a"
    by (metis append_take_drop_id)
  then show ?thesis ..
qed

lemma hex_address_not_cardano: "is_hex_address a \<Longrightarrow> \<not> CardanoClient_isValidAddress a"
  using hex_address_starts_0x [of a]
  by (auto simp: CardanoClient_isValidAddress_def starts_with_def)

lemma hex_address_matches: "is_hex_address a \<Longrightarrow> matches_hex_address a \<and> take 2 a = ''0x''"
  by (simp add: is_hex_address_def matches_hex_address_def is_hex40_def)

lemma r_is_no_hex_digit: "\<not> is_hex_digit CHR ''r''"
  by (simp add: is_hex_digit_def hex_digit_value_def char_code_def)

lemma addr_not_library_address: "\<not> ethers_isAddress cs ib (''addr'' @ r)"
  by (simp add: ethers_isAddress_def matches_hex_address_def is_hex40_def matches_icap_def
        r_is_no_hex_digit)

lemma address_examples:
  "is_hex_address ''0x5e592f9b1d303183d963635f895f0f0c48284f4e''"
  "\<not> mixed_case ''0x5e592f9b1d303183d963635f895f0f0c48284f4e''"
  "list_all (\<lambda>x. is_lower x \<or> is_digit x) ''q9xyz0''"
  by code_simp+

lemma unprefixed_example:
  "matches_hex_address ''5e592f9b1d303183d963635f895f0f0c48284f4e''"
  "\<not> mixed_case (''0x'' @ ''5e592f9b1d303183d963635f895f0f0c48284f4e'')"
  "take 2 ''5e592f9b1d303183d963635f895f0f0c48284f4e'' \<noteq> ''0x''"
  "\<not> is_hex_address ''5e592f9b1d303183d963635f895f0f0c48284f4e''"
  "\<not> starts_with ''addr1'' ''5e592f9b1d303183d963635f895f0f0c48284f4e''"
  by code_simp+

lemma two_spellings:
  "is_hex_address ''0x7E0aF8988eb8d127D74cc1F8D07B34dA31d3C76d''"
  "is_hex_address ''0x7E0aF8988eb8d127D74cc1F8D07B34dA31d3C76D''"
  "mixed_case ''0x7E0aF8988eb8d127D74cc1F8D07B34dA31d3C76d''"
  "mixed_case ''0x7E0aF8988eb8d127D74cc1F8D07B34dA31d3C76D''"
  "toLowerCase ''0x7E0aF8988eb8d127D74cc1F8D07B34dA31d3C76d'' =
     toLowerCase ''0x7E0aF8988eb8d127D74cc1F8D07B34dA31d3C76D''"
  by code_simp+

lemma library_accepts_unprefixed:
  "ethers_isAddress cs ib ''5e592f9b1d303183d963635f895f0f0c48284f4e''"
  using unprefixed_example by (simp add: ethers_isAddress_def)

lemma library_rule_mixed:
  "is_hex_address a \<Longrightarrow> mixed_case a \<Longrightarrow>
     ethers_isAddress cs ib a = (cs (toLowerCase a) = a)"
  using hex_address_matches [of a] by (simp add: ethers_isAddress_def)

lemma library_refuses_a_spelling:
  "\<not> (ethers_isAddress cs ib ''0x7E0aF8988eb8d127D74cc1F8D07B34dA31d3C76d'' \<and>
      ethers_isAddress cs ib ''0x7E0aF8988eb8d127D74cc1F8D07B34dA31d3C76D'')"
proof
  assume both: "ethers_isAddress cs ib ''0x7E0aF8988eb8d127D74cc1F8D07B34dA31d3C76d'' \<and>
      ethers_isAddress cs ib ''0x7E0aF8988eb8d127D74cc1F8D07B34dA31d3C76D''"
  then have f1: "cs (toLowerCase ''0x7E0aF8988eb8d127D74cc1F8D07B34dA31d3C76d'') =
      ''0x7E0aF8988eb8d127D74cc1F8D07B34dA31d3C76d''"
    by (simp only: library_rule_mixed [OF two_spellings(1) two_spellings(3)])
  from both have f2: "cs (toLowerCase ''0x7E0aF8988eb8d127D74cc1F8D07B34dA31d3C76D'') =
      ''0x7E0aF8988eb8d127D74cc1F8D07B34dA31d3C76D''"
    by (simp only: library_rule_mixed [OF two_spellings(2) two_spellings(4)])
  have "''0x7E0aF8988eb8d127D74cc1F8D07B34dA31d3C76d'' =
      cs (toLowerCase ''0x7E0aF8988eb8d127D74cc1F8D07B34dA31d3C76d'')"
    using f1 by (rule sym)
  also have "\<dots> = cs (toLowerCase ''0x7E0aF8988eb8d127D74cc1F8D07B34dA31d3C76D'')"
    by (simp only: two_spellings(5))
  also have "\<dots> = ''0x7E0aF8988eb8d127D74cc1F8D07B34dA31d3C76D''"
    by (rule f2)
  finally show False
    by simp
qed

text \<open>
  Claim C9: every 42-character \<^verbatim>\<open>0x\<close>-prefixed hexadecimal string is accepted by the EVM
  address check and rejected by the Cardano check; every string \<^verbatim>\<open>addr1\<close> followed by its
  payload is accepted by the Cardano check and rejected by the EVM check; a string that
  fits neither syntax is rejected by both.

  As amended: the EVM check is the library's \<^verbatim>\<open>isAddress\<close>, which follows the address rule
  of the library. Every 42-character \<^verbatim>\<open>0x\<close>-prefixed hexadecimal string is rejected by the
  Cardano check; the EVM check accepts it when its letters a to f are of one case, and
  when they are of both cases exactly if the string is its own checksum spelling. Every
  string \<^verbatim>\<open>addr1\<close> or \<^verbatim>\<open>addr_test1\<close> followed by a non-empty payload of lower-case letters
  and digits is accepted by the Cardano check and rejected by the EVM check. Every string
  that is neither 40 hexadecimal digits with or without \<^verbatim>\<open>0x\<close>, nor of the ICAP form, nor
  of one of the two Cardano forms is rejected by both checks.
\<close>

theorem address_checks:
  assumes "\<forall>s. isAddress lib s = ethers_isAddress getChecksumAddress ibanChecksum s"
  shows "(is_hex_address a \<longrightarrow>
            \<not> CardanoClient_isValidAddress a \<and>
            (\<not> mixed_case a \<longrightarrow> EthereumClient_isValidAddress lib a) \<and>
            (mixed_case a \<longrightarrow>
               EthereumClient_isValidAddress lib a = (getChecksumAddress (toLowerCase a) = a))) \<and>
         (payload \<noteq> [] \<and> list_all (\<lambda>x. is_lower x \<or> is_digit x) payload \<longrightarrow>
            CardanoClient_isValidAddress (''addr1'' @ payload) \<and>
            \<not> EthereumClient_isValidAddress lib (''addr1'' @ payload) \<and>
            CardanoClient_isValidAddress (''addr_test1'' @ payload) \<and>
            \<not> EthereumClient_isValidAddress lib (''addr_test1'' @ payload)) \<and>
         (\<not> matches_hex_address a \<and> \<not> matches_icap a \<and>
          (\<forall>p. p \<noteq> [] \<and> list_all (\<lambda>x. is_lower x \<or> is_digit x) p \<longrightarrow>
                 a \<noteq> ''addr1'' @ p \<and> a \<noteq> ''addr_test1'' @ p) \<longrightarrow>
            \<not> EthereumClient_isValidAddress lib a \<and> \<not> CardanoClient_isValidAddress a)"
proof -
  have eth: "EthereumClient_isValidAddress lib s = ethers_isAddress getChecksumAddress ibanChecksum s"
    for s
    using assms by (simp add: EthereumClient_isValidAddress_def)
  have one: "\<not> CardanoClient_isValidAddress a \<and>
            (\<not> mixed_case a \<longrightarrow> EthereumClient_isValidAddress lib a) \<and>
            (mixed_case a \<longrightarrow>
               EthereumClient_isValidAddress lib a = (getChecksumAddress (toLowerCase a) = a))"
    if "is_hex_address a"
    using hex_address_matches [OF that] hex_address_not_cardano [OF that]
    by (simp add: eth ethers_isAddress_def)
  have two: "CardanoClient_isValidAddress (''addr1'' @ payload) \<and>
            \<not> EthereumClient_isValidAddress lib (''addr1'' @ payload) \<and>
            CardanoClient_isValidAddress (''addr_test1'' @ payload) \<and>
            \<not> EthereumClient_isValidAddress lib (''addr_test1'' @ payload)"
    if "payload \<noteq> []" "list_all (\<lambda>x. is_lower x \<or> is_digit x) payload"
  proof -
    have "CardanoClient_isValidAddress (''addr1'' @ payload)"
      "CardanoClient_isValidAddress (''addr_test1'' @ payload)"
      using that by (auto simp: CardanoClient_isValidAddress_iff)
    moreover have "\<not> ethers_isAddress getChecksumAddress ibanChecksum (''addr1'' @ payload)"
      "\<not> ethers_isAddress getChecksumAddress ibanChecksum (''addr_test1'' @ payload)"
      using addr_not_library_address [of getChecksumAddress ibanChecksum "''1'' @ payload"]
        addr_not_library_address [of getChecksumAddress ibanChecksum "''_test1'' @ payload"]
      by simp_all
    ultimately show ?thesis
      by (simp add: eth)
  qed
  have three: "\<not> EthereumClient_isValidAddress lib a \<and> \<not> CardanoClient_isValidAddress a"
    if "\<not> matches_hex_address a" "\<not> matches_icap a"
      "\<forall>p. p \<noteq> [] \<and> list_all (\<lambda>x. is_lower x \<or> is_digit x) p \<longrightarrow>
             a \<noteq> ''addr1'' @ p \<and> a \<noteq> ''addr_test1'' @ p"
    using that by (auto simp: eth ethers_isAddress_def CardanoClient_isValidAddress_iff)
  from one two three show ?thesis
    by blast
qed

text \<open>
  The amended claim at the mainnet escrow address in lower case and at a mainnet-style
  Cardano address, for a library with stand-in checksum functions.
\<close>

theorem address_checks_witness:
  "EthereumClient_isValidAddress
     ((signing_lib [])\<lparr>isAddress := ethers_isAddress (\<lambda>a. a) (\<lambda>a. ''00'')\<rparr>)
     ''0x5e592f9b1d303183d963635f895f0f0c48284f4e'' \<and>
   \<not> CardanoClient_isValidAddress ''0x5e592f9b1d303183d963635f895f0f0c48284f4e'' \<and>
   CardanoClient_isValidAddress (''addr1'' @ ''q9xyz0'') \<and>
   \<not> EthereumClient_isValidAddress
       ((signing_lib [])\<lparr>isAddress := ethers_isAddress (\<lambda>a. a) (\<lambda>a. ''00'')\<rparr>)
       (''addr1'' @ ''q9xyz0'')"
proof -
  have h: "\<forall>s. isAddress ((signing_lib [])\<lparr>isAddress := ethers_isAddress (\<lambda>a. a) (\<lambda>a. ''00'')\<rparr>) s =
      ethers_isAddress (\<lambda>a. a) (\<lambda>a. ''00'') s"
    by simp
  have ne: "''q9xyz0'' \<noteq> []"
    by simp
  from address_checks [OF h, of "''0x5e592f9b1d303183d963635f895f0f0c48284f4e''" "''q9xyz0''"]
    address_examples ne
  show ?thesis
    by blast
qed

text \<open>
  The claim as stated fails three times. A testnet address is no hexadecimal address and
  does not start with \<^verbatim>\<open>addr1\<close>, and the Cardano check accepts it. Forty hexadecimal digits
  without \<^verbatim>\<open>0x\<close> fit neither syntax, and the EVM check accepts them whatever the checksum
  functions are. And of two spellings of one address that differ in the case of a letter,
  both 42-character \<^verbatim>\<open>0x\<close>-prefixed hexadecimal strings, the EVM check refuses at least
  one: the first is the Sepolia escrow address of the network constants.
\<close>

theorem testnet_address_counterexample:
  "\<not> is_hex_address ''addr_test1qq'' \<and> \<not> starts_with ''addr1'' ''addr_test1qq'' \<and>
   CardanoClient_isValidAddress ''addr_test1qq'' \<and>
   \<not> is_hex_address ''5e592f9b1d303183d963635f895f0f0c48284f4e'' \<and>
   \<not> starts_with ''addr1'' ''5e592f9b1d303183d963635f895f0f0c48284f4e'' \<and>
   (\<forall>cs ib. EthereumClient_isValidAddress ((signing_lib [])\<lparr>isAddress := ethers_isAddress cs ib\<rparr>)
      ''5e592f9b1d303183d963635f895f0f0c48284f4e'') \<and>
   is_hex_address ''0x7E0aF8988eb8d127D74cc1F8D07B34dA31d3C76d'' \<and>
   is_hex_address ''0x7E0aF8988eb8d127D74cc1F8D07B34dA31d3C76D'' \<and>
   (\<forall>cs ib.
      \<not> (EthereumClient_isValidAddress ((signing_lib [])\<lparr>isAddress := ethers_isAddress cs ib\<rparr>)
            ''0x7E0aF8988eb8d127D74cc1F8D07B34dA31d3C76d'' \<and>
          EthereumClient_isValidAddress ((signing_lib [])\<lparr>isAddress := ethers_isAddress cs ib\<rparr>)
            ''0x7E0aF8988eb8d127D74cc1F8D07B34dA31d3C76D''))"
proof -
  have "\<not> is_hex_address ''addr_test1qq'' \<and> \<not> starts_with ''addr1'' ''addr_test1qq'' \<and>
      CardanoClient_isValidAddress ''addr_test1qq''"
    by code_simp
  moreover have "\<forall>cs ib. EthereumClient_isValidAddress
      ((signing_lib [])\<lparr>isAddress := ethers_isAddress cs ib\<rparr>)
      ''5e592f9b1d303183d963635f895f0f0c48284f4e''"
    using library_accepts_unprefixed by (simp add: EthereumClient_isValidAddress_def)
  moreover have "\<forall>cs ib.
      \<not> (EthereumClient_isValidAddress ((signing_lib [])\<lparr>isAddress := ethers_isAddress cs ib\<rparr>)
            ''0x7E0aF8988eb8d127D74cc1F8D07B34dA31d3C76d'' \<and>
          EthereumClient_isValidAddress ((signing_lib [])\<lparr>isAddress := ethers_isAddress cs ib\<rparr>)
            ''0x7E0aF8988eb8d127D74cc1F8D07B34dA31d3C76D'')"
    using library_refuses_a_spelling by (simp add: EthereumClient_isValidAddress_def)
  ultimately show ?thesis
    using unprefixed_example(4,5) two_spellings(1,2) by blast
qed

section \<open>The payment type in the metadata\<close>

text \<open>
  Claim C10: every map made by \<^verbatim>\<open>createFreeCallMetadata\<close> sends \<^verbatim>\<open>snet-payment-type\<close> to
  \<^verbatim>\<open>free-call\<close> and \<^verbatim>\<open>snet-payment-channel-signature-bin\<close> to the empty string, every map
  made by \<^verbatim>\<open>createPaymentMetadata\<close> sends \<^verbatim>\<open>snet-payment-type\<close> to \<^verbatim>\<open>escrow\<close>, and so the
  payment type tells the two kinds of authorization apart. This holds for the functions of
  the payment utilities and for the static methods of the gRPC client.
\<close>

theorem payment_type_discriminates:
  "createFreeCallMetadata ts u org sv tok blk ''snet-payment-type'' = Some ''free-call'' \<and>
   createFreeCallMetadata ts u org sv tok blk ''snet-payment-channel-signature-bin'' = Some '''' \<and>
   createPaymentMetadata ts c n a sg ''snet-payment-type'' = Some ''escrow'' \<and>
   GrpcClient_createFreeCallMetadata ts u org sv tok blk ''snet-payment-type'' = Some ''free-call'' \<and>
   GrpcClient_createFreeCallMetadata ts u org sv tok blk ''snet-payment-channel-signature-bin'' = Some '''' \<and>
   GrpcClient_createPaymentMetadata ts c n a sh ''snet-payment-type'' = Some ''escrow'' \<and>
   createPaymentMetadata ts c n a sg ''snet-payment-type''
     \<noteq> createFreeCallMetadata ts' u org sv tok blk ''snet-payment-type''"
  by (simp add: createFreeCallMetadata_def createPaymentMetadata_def
        GrpcClient_createFreeCallMetadata_def GrpcClient_createPaymentMetadata_def)

end
